theory Spec2Isabelle
  imports Complex_Main
begin

section \<open>JavaScript values\<close>

text \<open>
  Both modules are dynamically typed: event arguments, bid objects and server responses are
  plain JavaScript objects that are copied with \<open>Object.assign\<close> and the spread operator and
  read through string paths. They are modelled as values of one datatype. An object is the
  list of its own enumerable properties in insertion order (the order \<open>Object.keys\<close> reports;
  integer-like keys, which an engine enumerates first, are not treated specially, and no
  property is inherited from \<open>Object.prototype\<close>). Strings are byte strings. A thrown
  exception is a value as well: \<open>JError\<close> is an \<open>Error\<close> object, named by its constructor.
\<close>

datatype jsval =
    JUndefined
  | JNull
  | JBool bool
  | JNum real
  | JNaN
  | JInfinity bool
  | JStr string
  | JArr "jsval list"
  | JObj "(string \<times> jsval) list"
  | JError string

type_synonym props = "(string \<times> jsval) list"

definition TypeError :: jsval where
  "TypeError = JError ''TypeError''"

text \<open>A computation that may throw returns \<open>Inl e\<close> for the thrown value \<open>e\<close>.\<close>

definition bindE :: "jsval + 'a \<Rightarrow> ('a \<Rightarrow> jsval + 'b) \<Rightarrow> jsval + 'b" where
  "bindE m f = (case m of Inl e \<Rightarrow> Inl e | Inr x \<Rightarrow> f x)"

fun map_exn :: "('a \<Rightarrow> jsval + 'b) \<Rightarrow> 'a list \<Rightarrow> jsval + 'b list" where
  "map_exn f [] = Inr []"
| "map_exn f (x # xs) =
     (case f x of
        Inl e \<Rightarrow> Inl e
      | Inr y \<Rightarrow> (case map_exn f xs of Inl e \<Rightarrow> Inl e | Inr ys \<Rightarrow> Inr (y # ys)))"

fun truthy :: "jsval \<Rightarrow> bool" where
  "truthy JUndefined = False"
| "truthy JNull = False"
| "truthy (JBool b) = b"
| "truthy (JNum r) = (r \<noteq> 0)"
| "truthy JNaN = False"
| "truthy (JInfinity _) = True"
| "truthy (JStr s) = (s \<noteq> [])"
| "truthy (JArr _) = True"
| "truthy (JObj _) = True"
| "truthy (JError _) = True"

definition nullish :: "jsval \<Rightarrow> bool" where
  "nullish v = (v = JUndefined \<or> v = JNull)"

text \<open>\<open>a || b\<close> and \<open>a && b\<close> on values.\<close>

definition js_or :: "jsval \<Rightarrow> jsval \<Rightarrow> jsval" where
  "js_or a b = (if truthy a then a else b)"

definition js_and :: "jsval \<Rightarrow> jsval \<Rightarrow> jsval" where
  "js_and a b = (if truthy a then b else a)"

subsection \<open>Properties\<close>

definition pget :: "props \<Rightarrow> string \<Rightarrow> jsval" where
  "pget ps k = (case map_of ps k of Some v \<Rightarrow> v | None \<Rightarrow> JUndefined)"

definition has_own :: "props \<Rightarrow> string \<Rightarrow> bool" where
  "has_own ps k = (map_of ps k \<noteq> None)"

text \<open>Assignment \<open>o[k] = v\<close>: an existing property keeps its place, a new one is appended.\<close>

definition pset :: "props \<Rightarrow> string \<Rightarrow> jsval \<Rightarrow> props" where
  "pset ps k v =
     (if has_own ps k then map (\<lambda>(k', v'). if k' = k then (k', v) else (k', v')) ps
      else ps @ [(k, v)])"

definition pdelete :: "props \<Rightarrow> string \<Rightarrow> props" where
  "pdelete ps k = filter (\<lambda>(k', _). k' \<noteq> k) ps"

text \<open>\<open>Object.assign(target, source)\<close> on property lists.\<close>

definition assign :: "props \<Rightarrow> props \<Rightarrow> props" where
  "assign target source = foldl (\<lambda>t (k, v). pset t k v) target source"

definition digit_of :: "char \<Rightarrow> nat option" where
  "digit_of c =
     (let n = (of_char c :: nat) in if 48 \<le> n \<and> n \<le> 57 then Some (n - 48) else None)"

fun digits_val :: "nat \<Rightarrow> string \<Rightarrow> nat option" where
  "digits_val acc [] = Some acc"
| "digits_val acc (c # cs) =
     (case digit_of c of None \<Rightarrow> None | Some d \<Rightarrow> digits_val (10 * acc + d) cs)"

text \<open>An array index as a property name: a canonical decimal numeral.\<close>

definition array_index :: "string \<Rightarrow> nat option" where
  "array_index k =
     (if k = [] then None
      else if hd k = CHR ''0'' \<and> tl k \<noteq> [] then None
      else digits_val 0 k)"

text \<open>
  \<open>v[k]\<close> for a value \<open>v\<close> that is neither \<open>undefined\<close> nor \<open>null\<close>: an own property of an
  object, an element or the length of an array or a string, and \<open>undefined\<close> otherwise.
\<close>

definition jget :: "jsval \<Rightarrow> string \<Rightarrow> jsval" where
  "jget v k =
     (case v of
        JObj ps \<Rightarrow> pget ps k
      | JArr xs \<Rightarrow>
          (if k = ''length'' then JNum (of_nat (length xs))
           else (case array_index k of
                   Some i \<Rightarrow> (if i < length xs then xs ! i else JUndefined)
                 | None \<Rightarrow> JUndefined))
      | JStr s \<Rightarrow>
          (if k = ''length'' then JNum (of_nat (length s))
           else (case array_index k of
                   Some i \<Rightarrow> (if i < length s then JStr [s ! i] else JUndefined)
                 | None \<Rightarrow> JUndefined))
      | _ \<Rightarrow> JUndefined)"

text \<open>\<open>v.k\<close> where \<open>v\<close> may be \<open>undefined\<close> or \<open>null\<close>: the engine throws a TypeError.\<close>

definition jget_strict :: "jsval \<Rightarrow> string \<Rightarrow> jsval + jsval" where
  "jget_strict v k = (if nullish v then Inl TypeError else Inr (jget v k))"

fun split_acc :: "char \<Rightarrow> string \<Rightarrow> string \<Rightarrow> string list" where
  "split_acc sep cur [] = [rev cur]"
| "split_acc sep cur (c # cs) =
     (if c = sep then rev cur # split_acc sep [] cs else split_acc sep (c # cur) cs)"

text \<open>\<open>s.split(sep)\<close> for a one-character separator.\<close>

definition split_on :: "char \<Rightarrow> string \<Rightarrow> string list" where
  "split_on sep s = split_acc sep [] s"

text \<open>\<open>xs.join(sep)\<close> on strings.\<close>

fun join :: "string \<Rightarrow> string list \<Rightarrow> string" where
  "join sep [] = []"
| "join sep [x] = x"
| "join sep (x # y # ys) = x @ sep @ join sep (y # ys)"

definition dquote :: string where
  "dquote = [CHR 0x22]"


subsection \<open>Host utilities\<close>

text \<open>
  Modelled from the spec: the helpers of the host's \<open>src/utils.js\<close> (\<open>deepAccess\<close>,
  \<open>deepSetValue\<close>, \<open>_map\<close>, \<open>isPlainObject\<close>, \<open>isEmpty\<close>, \<open>groupBy\<close>, \<open>uniques\<close>), which the
  modules import and this snapshot does not hold. \<open>deepAccess\<close> walks a dotted path and
  yields \<open>undefined\<close> as soon as a step is falsy.
\<close>

definition deepAccess :: "jsval \<Rightarrow> string \<Rightarrow> jsval" where
  "deepAccess obj path =
     foldl (\<lambda>v k. if truthy v then jget v k else JUndefined) obj (split_on CHR ''.'' path)"

text \<open>
  Modelled from the spec: \<open>deepSetValue\<close> walks the path, puts an empty object where a step
  is falsy, and assigns at the last step. A step through a value that cannot hold
  properties leaves that value as it is.
\<close>

fun deepSet :: "jsval \<Rightarrow> string list \<Rightarrow> jsval \<Rightarrow> jsval" where
  "deepSet obj [] v = obj"
| "deepSet (JObj ps) [k] v = JObj (pset ps k v)"
| "deepSet (JObj ps) (k # k' # ks) v =
     JObj (pset ps k (deepSet (if truthy (pget ps k) then pget ps k else JObj []) (k' # ks) v))"
| "deepSet obj ks v = obj"

definition deepSetValue :: "jsval \<Rightarrow> string \<Rightarrow> jsval \<Rightarrow> jsval" where
  "deepSetValue obj path v = deepSet obj (split_on CHR ''.'' path) v"

text \<open>Modelled from the spec: \<open>isPlainObject\<close> tests for the tag \<open>[object Object]\<close>.\<close>

fun isPlainObject :: "jsval \<Rightarrow> bool" where
  "isPlainObject (JObj _) = True"
| "isPlainObject _ = False"

subsection \<open>The engine\<close>

text \<open>
  The built-in operations whose result depends on number formatting, IEEE arithmetic, string
  coercion or Unicode are parameters of the model: the theorems hold for every engine.
\<close>

record engine =
  toStr :: "jsval \<Rightarrow> string"
  encodeURIComponent :: "jsval \<Rightarrow> string"
  decodeURIComponent :: "jsval \<Rightarrow> jsval + string"
  JSON_stringify :: "jsval \<Rightarrow> jsval"
  JSON_parse :: "jsval \<Rightarrow> jsval + jsval"
  js_minus :: "jsval \<Rightarrow> jsval \<Rightarrow> jsval"
  js_divide :: "jsval \<Rightarrow> jsval \<Rightarrow> jsval"
  js_times :: "jsval \<Rightarrow> jsval \<Rightarrow> jsval"
  js_less :: "jsval \<Rightarrow> jsval \<Rightarrow> bool"
  Math_floor :: "jsval \<Rightarrow> jsval"
  Math_round :: "jsval \<Rightarrow> jsval"
  parseInt10 :: "jsval \<Rightarrow> jsval"
  parseFloat :: "jsval \<Rightarrow> jsval"
  isNaN :: "jsval \<Rightarrow> bool"
  toUpperCase :: "string \<Rightarrow> string"
  toFixed4 :: "jsval \<Rightarrow> jsval"


text \<open>
  \<open>String(v)\<close>, as template literals and \<open>+\<close> with a string apply it: the cases the
  language fixes are written out, numbers and objects are left to the engine.
\<close>

definition toString :: "engine \<Rightarrow> jsval \<Rightarrow> string" where
  "toString E v =
     (case v of
        JStr s \<Rightarrow> s
      | JUndefined \<Rightarrow> ''undefined''
      | JNull \<Rightarrow> ''null''
      | JBool b \<Rightarrow> (if b then ''true'' else ''false'')
      | JNaN \<Rightarrow> ''NaN''
      | JInfinity b \<Rightarrow> (if b then ''Infinity'' else ''-Infinity'')
      | _ \<Rightarrow> toStr E v)"

text \<open>
  \<open>a === b\<close>. Objects and arrays are compared by reference in the language; the model has
  no references, and two of them are never identical.
\<close>

definition strict_eq :: "jsval \<Rightarrow> jsval \<Rightarrow> bool" where
  "strict_eq a b =
     (case a of
        JNaN \<Rightarrow> False
      | JArr _ \<Rightarrow> False
      | JObj _ \<Rightarrow> False
      | JError _ \<Rightarrow> False
      | _ \<Rightarrow> a = b)"

definition is_number :: "jsval \<Rightarrow> bool" where
  "is_number v = (case v of JNum _ \<Rightarrow> True | JNaN \<Rightarrow> True | JInfinity _ \<Rightarrow> True | _ \<Rightarrow> False)"

text \<open>\<open>v instanceof Object\<close>.\<close>

definition instanceof_Object :: "jsval \<Rightarrow> bool" where
  "instanceof_Object v = (case v of JArr _ \<Rightarrow> True | JObj _ \<Rightarrow> True | JError _ \<Rightarrow> True | _ \<Rightarrow> False)"

function show_nat :: "nat \<Rightarrow> string" where
  "show_nat n = (if n < 10 then [char_of (48 + n)] else show_nat (n div 10) @ [char_of (48 + n mod 10)])"
  by pat_completeness auto
termination
  by (relation "measure id") auto

text \<open>The own enumerable properties of a value, as \<open>Object.keys\<close>, \<open>Object.assign\<close> and the
  spread operator see them.\<close>

definition own_props :: "jsval \<Rightarrow> props" where
  "own_props v =
     (case v of
        JObj ps \<Rightarrow> ps
      | JArr xs \<Rightarrow> zip (map show_nat [0..<length xs]) xs
      | JStr s \<Rightarrow> zip (map show_nat [0..<length s]) (map (\<lambda>c. JStr [c]) s)
      | _ \<Rightarrow> [])"

definition Object_keys :: "jsval \<Rightarrow> jsval + string list" where
  "Object_keys v = (if nullish v then Inl TypeError else Inr (map fst (own_props v)))"

text \<open>\<open>xs.join(sep)\<close> on an array of values: \<open>undefined\<close> and \<open>null\<close> are empty.\<close>

definition array_join :: "engine \<Rightarrow> string \<Rightarrow> jsval list \<Rightarrow> string" where
  "array_join E sep xs = join sep (map (\<lambda>x. if nullish x then [] else toString E x) xs)"

text \<open>\<open>v.join(sep)\<close> on a value: a TypeError unless it is an array.\<close>

definition join_strict :: "engine \<Rightarrow> string \<Rightarrow> jsval \<Rightarrow> jsval + string" where
  "join_strict E sep v = (case v of JArr xs \<Rightarrow> Inr (array_join E sep xs) | _ \<Rightarrow> Inl TypeError)"

text \<open>Modelled from the spec: \<open>xs.filter(uniques)\<close> keeps the first occurrence of each element.\<close>

definition uniques :: "'a list \<Rightarrow> 'a list" where
  "uniques xs = foldl (\<lambda>acc x. if x \<in> set acc then acc else acc @ [x]) [] xs"

text \<open>
  Modelled from the spec: \<open>groupBy(xs, key)\<close> collects the elements under the string of
  their \<open>key\<close> property, groups in the order of first occurrence.
\<close>

fun groupBy_acc ::
  "engine \<Rightarrow> string \<Rightarrow> (string \<times> jsval list) list \<Rightarrow> jsval list
     \<Rightarrow> jsval + (string \<times> jsval list) list" where
  "groupBy_acc E key acc [] = Inr acc"
| "groupBy_acc E key acc (x # xs) =
     (if nullish x then Inl TypeError
      else let k = toString E (jget x key)
           in groupBy_acc E key
                (if map_of acc k = None then acc @ [(k, [x])]
                 else map (\<lambda>(k', g). if k' = k then (k', g @ [x]) else (k', g)) acc) xs)"

definition groupBy :: "engine \<Rightarrow> jsval \<Rightarrow> string \<Rightarrow> jsval + (string \<times> jsval list) list" where
  "groupBy E xs key = (case xs of JArr ys \<Rightarrow> groupBy_acc E key [] ys | _ \<Rightarrow> Inl TypeError)"

text \<open>Modelled from the spec: \<open>isEmpty\<close> of an object: it has no own property.\<close>

definition isEmpty :: "props \<Rightarrow> bool" where
  "isEmpty ps = (ps = [])"

text \<open>Modelled from the spec: \<open>_map(object, callback)\<close> calls \<open>callback(value, key)\<close> on each
  own property, in order.\<close>

definition map_object :: "(jsval \<Rightarrow> string \<Rightarrow> 'a) \<Rightarrow> props \<Rightarrow> 'a list" where
  "map_object callback object = map (\<lambda>(key, v). callback v key) object"

text \<open>\<open>s.indexOf(t) !== -1\<close> on strings.\<close>

definition is_prefix :: "string \<Rightarrow> string \<Rightarrow> bool" where
  "is_prefix t s = (take (length t) s = t)"

fun contains :: "string \<Rightarrow> string \<Rightarrow> bool" where
  "contains [] t = (t = [])"
| "contains (c # cs) t = (is_prefix t (c # cs) \<or> contains cs t)"

section \<open>The smaato bid adapter\<close>

definition BIDDER_CODE :: string where
  "BIDDER_CODE = ''smaato''"

definition SMAATO_ENDPOINT :: string where
  "SMAATO_ENDPOINT = ''https://prebid-test.smaatolabs.net/bidder''"

definition CLIENT :: string where
  "CLIENT = ''prebid/js/$prebid.version$_0.1''"

text \<open>
  What the adapter reads from the page: \<open>window.location\<close>, \<open>navigator\<close>, \<open>screen\<close>, the
  host's \<open>utils.getDNT()\<close> and \<open>config.getConfig('coppa')\<close>.
\<close>

record browser =
  location_hostname :: jsval
  location_href :: jsval
  navigator_language :: jsval
  navigator_userAgent :: jsval
  screen_height :: jsval
  screen_width :: jsval
  getDNT :: jsval
  getConfig_coppa :: jsval

text \<open>An array method (\<open>map\<close>, \<open>forEach\<close>) called on a value: a TypeError unless it is an array.\<close>

definition as_array :: "jsval \<Rightarrow> jsval + jsval list" where
  "as_array v = (case v of JArr xs \<Rightarrow> Inr xs | _ \<Rightarrow> Inl TypeError)"

definition nth_or_undefined :: "jsval list \<Rightarrow> nat \<Rightarrow> jsval" where
  "nth_or_undefined xs i = (if i < length xs then xs ! i else JUndefined)"

text \<open>\<open>parseSizes\<close>: \<open>[[10, 10], [20, 20]]\<close> becomes \<open>[{w: 10, h: 10}, {w: 20, h: 20}]\<close>.\<close>

definition parseSizes :: "jsval \<Rightarrow> jsval + jsval list" where
  "parseSizes sizes =
     bindE (as_array sizes)
       (map_exn (\<lambda>size.
          if nullish size then Inl TypeError
          else Inr (JObj [(''w'', jget size ''0''), (''h'', jget size ''1'')])))"

text \<open>
  The callback of \<open>validBidRequests.map\<close>. \<open>getAdUnitSizes\<close> is the host's
  \<open>utils.getAdUnitSizes\<close>, a parameter.
\<close>

definition imp_entry :: "(jsval \<Rightarrow> jsval) \<Rightarrow> jsval \<Rightarrow> jsval + jsval" where
  "imp_entry getAdUnitSizes br =
     bindE (parseSizes (getAdUnitSizes br)) (\<lambda>sizes.
     bindE (jget_strict br ''bidId'') (\<lambda>bidId.
     bindE (jget_strict (nth_or_undefined sizes 0) ''w'') (\<lambda>w0.
     bindE (jget_strict (nth_or_undefined sizes 0) ''h'') (\<lambda>h0.
       Inr (JObj [(''id'', bidId),
                  (''banner'', JObj [(''w'', w0), (''h'', h0), (''format'', JArr sizes)]),
                  (''tagid'', deepAccess br ''params.adspaceId'')])))))"

definition device_language :: "browser \<Rightarrow> jsval + jsval" where
  "device_language W =
     (if truthy (navigator_language W)
      then (case navigator_language W of
              JStr s \<Rightarrow> Inr (JStr (hd (split_on CHR ''-'' s)))
            | _ \<Rightarrow> Inl TypeError)
      else Inr (JStr []))"

text \<open>The object that \<open>buildOpenRtbBidRequestPayload\<close> builds before it serializes it.\<close>

definition openRtbBidRequest ::
  "(jsval \<Rightarrow> jsval) \<Rightarrow> browser \<Rightarrow> jsval list \<Rightarrow> jsval \<Rightarrow> jsval + jsval" where
  "openRtbBidRequest getAdUnitSizes W validBidRequests bidderRequest =
     bindE (map_exn (imp_entry getAdUnitSizes) validBidRequests) (\<lambda>imp.
     bindE (jget_strict bidderRequest ''auctionId'') (\<lambda>auctionId.
     bindE (jget_strict (jget bidderRequest ''refererInfo'') ''referer'') (\<lambda>referer.
     bindE (device_language W) (\<lambda>language.
       let gdprConsent = jget bidderRequest ''gdprConsent'';
           request = JObj
             [(''id'', auctionId),
              (''at'', JNum 1),
              (''imp'', JArr imp),
              (''cur'', JArr [JStr ''USD'']),
              (''site'', JObj
                 [(''id'', location_hostname W),
                  (''publisher'', JObj
                     [(''id'', deepAccess (nth_or_undefined validBidRequests 0)
                                 ''params.publisherId'')]),
                  (''domain'', location_hostname W),
                  (''page'', location_href W),
                  (''ref'', referer)]),
              (''device'', JObj
                 [(''language'', language),
                  (''ua'', navigator_userAgent W),
                  (''dnt'', JNum (if truthy (getDNT W) then 1 else 0)),
                  (''h'', screen_height W),
                  (''w'', screen_width W)]),
              (''regs'', JObj
                 [(''coppa'', JNum (if getConfig_coppa W = JBool True then 1 else 0)),
                  (''ext'', JObj
                     [(''gdpr'',
                       JNum (if truthy (js_and gdprConsent (jget gdprConsent ''gdprApplies''))
                             then 1 else 0))])]),
              (''ext'', JObj [(''client'', JStr CLIENT)])]
       in Inr (if jget bidderRequest ''uspConsent'' \<noteq> JUndefined
               then deepSetValue request ''regs.ext.us_privacy'' (jget bidderRequest ''uspConsent'')
               else request)))))"

definition buildOpenRtbBidRequestPayload ::
  "engine \<Rightarrow> (jsval \<Rightarrow> jsval) \<Rightarrow> browser \<Rightarrow> jsval list \<Rightarrow> jsval \<Rightarrow> jsval + jsval" where
  "buildOpenRtbBidRequestPayload E getAdUnitSizes W validBidRequests bidderRequest =
     bindE (openRtbBidRequest getAdUnitSizes W validBidRequests bidderRequest)
       (\<lambda>request. Inr (JSON_stringify E request))"

text \<open>\<open>spec.isBidRequestValid\<close>.\<close>

definition is_string :: "jsval \<Rightarrow> bool" where
  "is_string v = (case v of JStr _ \<Rightarrow> True | _ \<Rightarrow> False)"

definition typeof_object :: "jsval \<Rightarrow> bool" where
  "typeof_object v = (case v of JNull \<Rightarrow> True | JArr _ \<Rightarrow> True | JObj _ \<Rightarrow> True
                      | JError _ \<Rightarrow> True | _ \<Rightarrow> False)"

definition isBidRequestValid :: "jsval \<Rightarrow> jsval + bool" where
  "isBidRequestValid bid =
     bindE (jget_strict bid ''params'') (\<lambda>params.
       if \<not> typeof_object params then Inr False
       else bindE (jget_strict params ''publisherId'') (\<lambda>publisherId.
         if \<not> is_string publisherId then Inr False
         else Inr (is_string (jget params ''adspaceId''))))"

text \<open>\<open>spec.buildRequests\<close>. The calls of \<open>utils.logInfo\<close> write to the debug console only.\<close>

definition buildRequests ::
  "engine \<Rightarrow> (jsval \<Rightarrow> jsval) \<Rightarrow> browser \<Rightarrow> jsval list \<Rightarrow> jsval \<Rightarrow> jsval + jsval" where
  "buildRequests E getAdUnitSizes W validBidRequests bidderRequest =
     bindE (jget_strict (nth_or_undefined validBidRequests 0) ''params'') (\<lambda>params.
     bindE (jget_strict params ''endpoint'') (\<lambda>endpoint.
     bindE (buildOpenRtbBidRequestPayload E getAdUnitSizes W validBidRequests bidderRequest)
       (\<lambda>data.
     bindE (jget_strict bidderRequest ''auctionId'') (\<lambda>auctionId.
       Inr (JObj
         [(''method'', JStr ''POST''),
          (''url'', js_or endpoint (JStr SMAATO_ENDPOINT)),
          (''data'', data),
          (''options'', JObj
             [(''customHeaders'', JObj
                 [(''X-SMT-Client'', JStr CLIENT),
                  (''X-SMT-SessionId'', auctionId)])])])))))"

subsection \<open>Responses\<close>







definition getUserSyncs :: "jsval \<Rightarrow> jsval \<Rightarrow> jsval \<Rightarrow> jsval \<Rightarrow> jsval list" where
  "getUserSyncs syncOptions serverResponses gdprConsent uspConsent = []"

section \<open>The medianet analytics adapter\<close>

subsection \<open>Constants\<close>

definition ENDPOINT :: string where
  "ENDPOINT = ''https://pb-logs.media.net/log?logid=kfk&evtid=prebid_analytics_events_client''"

definition CONFIG_URL :: string where
  "CONFIG_URL = ''https://prebid.media.net/rtb/prebid/analytics/config''"

definition EVENT_PIXEL_URL :: string where
  "EVENT_PIXEL_URL = ''https://qsearch-a.akamaihd.net/log''"

definition DEFAULT_LOGGING_PERCENT :: jsval where
  "DEFAULT_LOGGING_PERCENT = JNum 50"

definition ANALYTICS_VERSION :: string where
  "ANALYTICS_VERSION = ''1.0.0''"

definition PRICE_GRANULARITY :: props where
  "PRICE_GRANULARITY =
     [(''auto'', JStr ''pbAg''), (''custom'', JStr ''pbCg''), (''dense'', JStr ''pbDg''),
      (''low'', JStr ''pbLg''), (''medium'', JStr ''pbMg''), (''high'', JStr ''pbHg'')]"

definition MEDIANET_BIDDER_CODE :: string where
  "MEDIANET_BIDDER_CODE = ''medianet''"

definition PREBID_VERSION :: string where
  "PREBID_VERSION = ''$prebid.version$''"

definition ERROR_CONFIG_JSON_PARSE :: string where
  "ERROR_CONFIG_JSON_PARSE = ''analytics_config_parse_fail''"

definition ERROR_CONFIG_FETCH :: string where
  "ERROR_CONFIG_FETCH = ''analytics_config_ajax_fail''"

definition ERROR_WINNING_BID_ABSENT :: string where
  "ERROR_WINNING_BID_ABSENT = ''winning_bid_absent''"

definition ERROR_WINNING_AUCTION_MISSING :: string where
  "ERROR_WINNING_AUCTION_MISSING = ''winning_auction_missing''"

definition BID_SUCCESS :: jsval where
  "BID_SUCCESS = JNum 1"

definition BID_NOBID :: jsval where
  "BID_NOBID = JNum 2"

definition BID_TIMEOUT :: jsval where
  "BID_TIMEOUT = JNum 3"

definition BID_FLOOR_REJECTED :: jsval where
  "BID_FLOOR_REJECTED = JNum 12"

definition DUMMY_BIDDER :: string where
  "DUMMY_BIDDER = ''-2''"

definition CONFIG_PENDING :: jsval where
  "CONFIG_PENDING = JNum 0"

definition CONFIG_PASS :: jsval where
  "CONFIG_PASS = JNum 1"

definition CONFIG_ERROR :: jsval where
  "CONFIG_ERROR = JNum 3"

definition VALID_URL_KEY :: "string list" where
  "VALID_URL_KEY = [''canonical_url'', ''og_url'', ''twitter_url'']"

definition DEFAULT_URL_KEY :: string where
  "DEFAULT_URL_KEY = ''topmostLocation''"

definition LOG_TYPE_APPR :: string where
  "LOG_TYPE_APPR = ''APPR''"

definition LOG_TYPE_RA :: string where
  "LOG_TYPE_RA = ''RA''"

subsection \<open>The host\<close>

text \<open>
  What the adapter imports from the host and reads from the page, as parameters: the
  constants of \<open>src/constants.js\<close>, \<open>src/auction.js\<close>, \<open>src/video.js\<close> and
  \<open>src/mediaTypes.js\<close>, the host functions \<open>getPriceGranularity\<close>, \<open>convertCurrency\<close>
  and \<open>getRefererInfo\<close>, and the document: \<open>querySelector\<close> on the top window (which may
  throw), the absolute form of a URL, the referrer, the window sizes, and the anchor
  element that \<open>URL.parseUrl\<close> lets the browser parse a URL with.
\<close>

record host =
  EVENTS_AUCTION_INIT :: jsval
  EVENTS_BID_REQUESTED :: jsval
  EVENTS_BID_RESPONSE :: jsval
  EVENTS_BID_TIMEOUT :: jsval
  EVENTS_NO_BID :: jsval
  EVENTS_AUCTION_END :: jsval
  EVENTS_SET_TARGETING :: jsval
  EVENTS_BID_WON :: jsval
  AUCTION_IN_PROGRESS :: jsval
  AUCTION_COMPLETED :: jsval
  BID_STATUS_BID_REJECTED :: jsval
  TARGETING_KEYS_AD_ID :: string
  INSTREAM :: jsval
  OUTSTREAM :: jsval
  ADPOD :: jsval
  getPriceGranularity :: "jsval \<Rightarrow> jsval"
  convertCurrency :: "jsval \<Rightarrow> jsval \<Rightarrow> jsval \<Rightarrow> jsval + jsval"
  getRefererInfo :: jsval
  querySelector :: "string \<Rightarrow> jsval + jsval"
  absoluteUrl :: "jsval \<Rightarrow> jsval + jsval"
  document_referrer :: jsval
  window_innerWidth :: jsval
  documentElement_clientWidth :: jsval
  body_clientWidth :: jsval
  window_innerHeight :: jsval
  documentElement_clientHeight :: jsval
  body_clientHeight :: jsval
  anchor :: "string \<Rightarrow> jsval"
  window_location_host :: jsval

subsection \<open>The state\<close>

text \<open>
  The classes of the module are records of values; a bid (\<open>Bid\<close>), which the module copies
  with the spread operator and \<open>Object.assign\<close>, is the list of its properties. The arrays
  \<open>bidReqs\<close> and \<open>bidObjs\<close> hold \<open>Bid\<close> instances only, so that \<open>instanceof Bid\<close> on the
  result of a search says whether the search found one; in the same way \<open>auctions\<close> holds
  \<open>Auction\<close> and \<open>adSlots\<close> holds \<open>AdSlot\<close> instances.
\<close>

record BidWrapper =
  bidReqs :: "props list"
  bidObjs :: "props list"

record AdSlot =
  tmax :: jsval
  supplyAdCode :: jsval
  context' :: jsval
  adext :: jsval
  logged :: props
  targeting :: jsval
  medianetPresent :: jsval

record Auction =
  acid :: jsval
  status :: jsval
  bidWrapper :: BidWrapper
  adSlots :: "(string \<times> AdSlot) list"
  auctionInitTime :: jsval
  auctionStartTime :: jsval
  setTargetingTime :: jsval
  auctionEndTime :: jsval
  bidWonTime :: jsval
  floorData :: jsval

record Configure =
  cid :: jsval
  pubLper :: jsval
  ajaxState :: jsval
  loggingPercent :: jsval
  urlToConsume :: jsval
  debug :: jsval
  gdprConsent :: jsval
  gdprApplies :: jsval
  uspConsent :: jsval
  shouldBeLogged :: props
  mnetDebugConfig :: jsval

record PageDetail =
  domain :: jsval
  page :: jsval
  is_top :: jsval
  referrer :: jsval
  canonical_url :: jsval
  og_url :: jsval
  twitter_url :: jsval
  topmostLocation :: jsval
  screen :: jsval

text \<open>
  The module's variables \<open>auctions\<close>, \<open>config\<close>, \<open>pageDetails\<close>, \<open>logsQueue\<close> and
  \<open>errorQueue\<close>, and what the module does to the world: the pixels it triggers, the
  messages it logs, the requests it hands to \<open>ajax\<close>, the host's global
  \<open>medianetGlobals\<close>, the calls of the base adapter's \<open>enableAnalytics\<close>, and the readings
  of \<open>Date.now()\<close> and \<open>Math.random()\<close> (the reading number \<open>n\<close> is the value at \<open>n\<close>).
\<close>

record state =
  auctions :: "(string \<times> Auction) list"
  config :: "Configure option"
  pageDetails :: "PageDetail option"
  logsQueue :: "string list"
  errorQueue :: "string list"
  pixels :: "string list"
  logError_calls :: "string list"
  logInfo_calls :: "(jsval \<times> jsval) list"
  ajax_calls :: "string list"
  medianetGlobals :: jsval
  originEnableAnalytics_calls :: "jsval list"
  Date_now :: "nat \<Rightarrow> jsval"
  Date_now_calls :: nat
  Math_random :: "nat \<Rightarrow> jsval"
  Math_random_calls :: nat

text \<open>
  A statement runs in a state and ends in a state, normally or by throwing: what it did
  before it threw stays done.
\<close>

type_synonym 'a M = "state \<Rightarrow> (jsval + 'a) \<times> state"

definition returnM :: "'a \<Rightarrow> 'a M" where
  "returnM x = (\<lambda>s. (Inr x, s))"

definition throwM :: "jsval \<Rightarrow> 'a M" where
  "throwM e = (\<lambda>s. (Inl e, s))"

definition bindM :: "'a M \<Rightarrow> ('a \<Rightarrow> 'b M) \<Rightarrow> 'b M" where
  "bindM m f = (\<lambda>s. case m s of (Inl e, s') \<Rightarrow> (Inl e, s') | (Inr x, s') \<Rightarrow> f x s')"

definition liftE :: "jsval + 'a \<Rightarrow> 'a M" where
  "liftE r = (\<lambda>s. (r, s))"

definition modify :: "(state \<Rightarrow> state) \<Rightarrow> unit M" where
  "modify f = (\<lambda>s. (Inr (), f s))"

fun forEachM :: "('a \<Rightarrow> unit M) \<Rightarrow> 'a list \<Rightarrow> unit M" where
  "forEachM f [] = returnM ()"
| "forEachM f (x # xs) = bindM (f x) (\<lambda>_. forEachM f xs)"

definition dateNow :: "jsval M" where
  "dateNow = (\<lambda>s. (Inr (Date_now s (Date_now_calls s)),
                    s\<lparr>Date_now_calls := Suc (Date_now_calls s)\<rparr>))"

definition mathRandom :: "jsval M" where
  "mathRandom = (\<lambda>s. (Inr (Math_random s (Math_random_calls s)),
                       s\<lparr>Math_random_calls := Suc (Math_random_calls s)\<rparr>))"

definition logError :: "string \<Rightarrow> unit M" where
  "logError msg = modify (\<lambda>s. s\<lparr>logError_calls := logError_calls s @ [msg]\<rparr>)"

definition logInfo :: "jsval \<Rightarrow> jsval \<Rightarrow> unit M" where
  "logInfo a b = modify (\<lambda>s. s\<lparr>logInfo_calls := logInfo_calls s @ [(a, b)]\<rparr>)"

definition triggerPixel :: "string \<Rightarrow> unit M" where
  "triggerPixel url = modify (\<lambda>s. s\<lparr>pixels := pixels s @ [url]\<rparr>)"

text \<open>Updates of a keyed table and of the first element of a list that passes a test.\<close>

definition update_key :: "string \<Rightarrow> ('a \<Rightarrow> 'a) \<Rightarrow> (string \<times> 'a) list \<Rightarrow> (string \<times> 'a) list" where
  "update_key k f kvs = map (\<lambda>(k', v). if k' = k then (k', f v) else (k', v)) kvs"

fun update_first :: "('a \<Rightarrow> bool) \<Rightarrow> ('a \<Rightarrow> 'a) \<Rightarrow> 'a list \<Rightarrow> 'a list" where
  "update_first P f [] = []"
| "update_first P f (x # xs) = (if P x then f x # xs else x # update_first P f xs)"

definition update_auction :: "string \<Rightarrow> (Auction \<Rightarrow> Auction) \<Rightarrow> unit M" where
  "update_auction k f = modify (\<lambda>s. s\<lparr>auctions := update_key k f (auctions s)\<rparr>)"

definition update_config :: "(Configure \<Rightarrow> Configure) \<Rightarrow> unit M" where
  "update_config f = modify (\<lambda>s. s\<lparr>config := map_option f (config s)\<rparr>)"

text \<open>Reading \<open>config\<close> or \<open>pageDetails\<close> while it is \<open>undefined\<close>: a TypeError.\<close>

definition getConfig :: "Configure M" where
  "getConfig = (\<lambda>s. case config s of None \<Rightarrow> (Inl TypeError, s) | Some c \<Rightarrow> (Inr c, s))"

definition getPageDetails :: "PageDetail M" where
  "getPageDetails =
     (\<lambda>s. case pageDetails s of None \<Rightarrow> (Inl TypeError, s) | Some p \<Rightarrow> (Inr p, s))"

text \<open>\<open>auctions[id]\<close> where the code goes on to use it as an \<open>Auction\<close>.\<close>

definition getAuction :: "string \<Rightarrow> Auction M" where
  "getAuction k =
     (\<lambda>s. case map_of (auctions s) k of None \<Rightarrow> (Inl TypeError, s) | Some a \<Rightarrow> (Inr a, s))"

subsection \<open>Query strings and error pixels\<close>

definition formatQS :: "engine \<Rightarrow> props \<Rightarrow> string" where
  "formatQS E data =
     join ''&'' (map_object (\<lambda>v key.
       if v = JUndefined then key @ ''=''
       else key @ ''='' @ encodeURIComponent E (if isPlainObject v then JSON_stringify E v else v))
       data)"

definition firePixel :: "string \<Rightarrow> unit M" where
  "firePixel qs =
     bindM (modify (\<lambda>s. s\<lparr>logsQueue := logsQueue s @ [ENDPOINT @ ''&'' @ qs]\<rparr>)) (\<lambda>_.
       triggerPixel (ENDPOINT @ ''&'' @ qs))"

text \<open>The constructor of \<open>ErrorLogger\<close>: the object's properties, in order.\<close>

definition new_ErrorLogger :: "string \<Rightarrow> jsval \<Rightarrow> props M" where
  "new_ErrorLogger event additionalData =
     bindM getPageDetails (\<lambda>pd.
     bindM getConfig (\<lambda>c.
       returnM [(''event'', JStr event),
                (''logid'', JStr ''kfk''),
                (''evtid'', JStr ''projectevents''),
                (''project'', JStr ''prebidanalytics''),
                (''dn'', js_or (domain pd) (JStr [])),
                (''requrl'', js_or (topmostLocation pd) (JStr [])),
                (''pbversion'', JStr PREBID_VERSION),
                (''cid'', js_or (cid c) (JStr [])),
                (''rd'', additionalData)]))"

definition ErrorLogger_send :: "engine \<Rightarrow> props \<Rightarrow> unit M" where
  "ErrorLogger_send E this =
     (let url = EVENT_PIXEL_URL @ ''?'' @ formatQS E this
      in bindM (modify (\<lambda>s. s\<lparr>errorQueue := errorQueue s @ [url]\<rparr>)) (\<lambda>_. triggerPixel url))"

subsection \<open>Configure\<close>

definition new_Configure :: "jsval \<Rightarrow> Configure" where
  "new_Configure c =
     \<lparr>cid = c, pubLper = JNum (- 1), ajaxState = CONFIG_PENDING,
      loggingPercent = DEFAULT_LOGGING_PERCENT, urlToConsume = JStr DEFAULT_URL_KEY,
      debug = JBool False, gdprConsent = JUndefined, gdprApplies = JUndefined,
      uspConsent = JUndefined, shouldBeLogged = [], mnetDebugConfig = JStr []\<rparr>"

definition Configure_getLoggingData :: "engine \<Rightarrow> Configure \<Rightarrow> props" where
  "Configure_getLoggingData E this =
     [(''cid'', cid this),
      (''lper'', Math_round E (js_divide E (JNum 100) (loggingPercent this))),
      (''plper'', pubLper this),
      (''gdpr'', JStr (if truthy (gdprApplies this) then ''1'' else ''0'')),
      (''gdprConsent'', gdprConsent this),
      (''ccpa'', uspConsent this),
      (''ajx'', ajaxState this),
      (''pbv'', JStr PREBID_VERSION),
      (''pbav'', JStr ANALYTICS_VERSION),
      (''flt'', JNum 1),
      (''enableDbf'', JNum 1)]"

definition configURL :: "engine \<Rightarrow> PageDetail \<Rightarrow> Configure \<Rightarrow> string" where
  "configURL E pd this =
     CONFIG_URL @ ''?cid='' @ encodeURIComponent E (cid this)
       @ ''&dn='' @ encodeURIComponent E (domain pd)"

definition setDataFromResponse :: "engine \<Rightarrow> Configure \<Rightarrow> jsval \<Rightarrow> jsval + Configure" where
  "setDataFromResponse E this response =
     bindE (jget_strict response ''percentage'') (\<lambda>percentage.
       Inr (if \<not> isNaN E (parseInt10 E percentage) then this\<lparr>loggingPercent := percentage\<rparr>
            else this))"

definition overrideDomainLevelData ::
  "engine \<Rightarrow> PageDetail \<Rightarrow> Configure \<Rightarrow> jsval \<Rightarrow> jsval + Configure" where
  "overrideDomainLevelData E pd this response =
     (let d = deepAccess response (''domain.'' @ toString E (domain pd))
      in if truthy d then setDataFromResponse E this d else Inr this)"

text \<open>\<open>overrideToDebug\<close>: whatever its \<open>try\<close> block throws is dropped.\<close>

definition overrideToDebug :: "engine \<Rightarrow> Configure \<Rightarrow> jsval \<Rightarrow> Configure" where
  "overrideToDebug E this response =
     (if strict_eq response (JStr []) then this
      else (case bindE (decodeURIComponent E response) (\<lambda>decoded.
                 bindE (JSON_parse E (JStr decoded)) (setDataFromResponse E this)) of
              Inl e \<Rightarrow> this
            | Inr this' \<Rightarrow> this'))"

text \<open>
  The \<open>try\<close> block of \<open>_parseResponse\<close>: the exception it ends with, if any, and \<open>this\<close>
  as the block leaves it.
\<close>

definition parseResponse_try ::
  "engine \<Rightarrow> PageDetail option \<Rightarrow> Configure \<Rightarrow> jsval \<Rightarrow> jsval option \<times> Configure" where
  "parseResponse_try E pdo this response =
     (case JSON_parse E response of
        Inl e \<Rightarrow> (Some e, this)
      | Inr r \<Rightarrow>
          (case setDataFromResponse E this r of
             Inl e \<Rightarrow> (Some e, this)
           | Inr this1 \<Rightarrow>
               (case pdo of
                  None \<Rightarrow> (Some TypeError, this1)
                | Some pd \<Rightarrow>
                    (case overrideDomainLevelData E pd this1 r of
                       Inl e \<Rightarrow> (Some e, this1)
                     | Inr this2 \<Rightarrow>
                         (let this3 = overrideToDebug E this2 (mnetDebugConfig this2);
                              this4 = this3\<lparr>urlToConsume :=
                                (if jget r ''urlKey'' \<in> JStr ` set VALID_URL_KEY
                                 then jget r ''urlKey'' else urlToConsume this3)\<rparr>
                          in (None, this4\<lparr>ajaxState := CONFIG_PASS\<rparr>))))))"

text \<open>
  A method of \<open>Configure\<close> returns the exception it threw, if any, and \<open>this\<close>, beside the
  state. \<open>_parseResponse\<close> and \<open>_errorFetch\<close> are the callbacks that \<open>init\<close> hands to \<open>ajax\<close>.
\<close>

definition parseResponse ::
  "engine \<Rightarrow> Configure \<Rightarrow> jsval \<Rightarrow> state \<Rightarrow> (jsval option \<times> Configure) \<times> state" where
  "parseResponse E this response s =
     (case parseResponse_try E (pageDetails s) this response of
        (None, this') \<Rightarrow> ((None, this'), s)
      | (Some e, this') \<Rightarrow>
          (case bindM (new_ErrorLogger ERROR_CONFIG_JSON_PARSE e) (ErrorLogger_send E) s of
             (Inl e', s') \<Rightarrow> ((Some e', this'\<lparr>ajaxState := CONFIG_ERROR\<rparr>), s')
           | (Inr _, s') \<Rightarrow> ((None, this'\<lparr>ajaxState := CONFIG_ERROR\<rparr>), s')))"

definition errorFetch ::
  "engine \<Rightarrow> Configure \<Rightarrow> state \<Rightarrow> (jsval option \<times> Configure) \<times> state" where
  "errorFetch E this s =
     (case bindM (new_ErrorLogger ERROR_CONFIG_FETCH JUndefined) (ErrorLogger_send E) s of
        (Inl e', s') \<Rightarrow> ((Some e', this\<lparr>ajaxState := CONFIG_ERROR\<rparr>), s')
      | (Inr _, s') \<Rightarrow> ((None, this\<lparr>ajaxState := CONFIG_ERROR\<rparr>), s'))"

subsection \<open>URL\<close>

definition ends_with :: "string \<Rightarrow> string \<Rightarrow> bool" where
  "ends_with s t = is_prefix (rev t) (rev s)"

text \<open>\<open>s.replace(t, '')\<close> for a string \<open>t\<close>: the first occurrence goes.\<close>

fun remove_first :: "string \<Rightarrow> string \<Rightarrow> string" where
  "remove_first t [] = []"
| "remove_first t (c # cs) =
     (if is_prefix t (c # cs) then drop (length t) (c # cs) else c # remove_first t cs)"

text \<open>The callback of \<open>reduce\<close> in \<open>URL.parseQS\<close>.\<close>

definition parseQS_step :: "props \<Rightarrow> string \<Rightarrow> jsval + props" where
  "parseQS_step acc criteria =
     (let kv = split_on CHR ''='' criteria;
          k = hd kv;
          v = (if 1 < length kv then JStr (kv ! 1) else JUndefined)
      in if ends_with k ''[]'' then
           (let k' = remove_first ''[]'' k;
                acc' = pset acc k' (js_or (pget acc k') (JArr []))
            in case pget acc' k' of
                 JArr xs \<Rightarrow> Inr (pset acc' k' (JArr (xs @ [v])))
               | _ \<Rightarrow> Inl TypeError)
         else Inr (pset acc k (js_or v (JStr []))))"

fun parseQS_reduce :: "props \<Rightarrow> string list \<Rightarrow> jsval + props" where
  "parseQS_reduce acc [] = Inr acc"
| "parseQS_reduce acc (c # cs) =
     (case parseQS_step acc c of Inl e \<Rightarrow> Inl e | Inr acc' \<Rightarrow> parseQS_reduce acc' cs)"

definition parseQS :: "jsval \<Rightarrow> jsval + props" where
  "parseQS query =
     (if \<not> truthy query then Inr []
      else (case query of
              JStr q \<Rightarrow>
                parseQS_reduce []
                  (split_on CHR ''&'' (if is_prefix ''?'' q then drop 1 q else q))
            | _ \<Rightarrow> Inl TypeError))"

definition parseUrl :: "engine \<Rightarrow> host \<Rightarrow> jsval \<Rightarrow> jsval + jsval" where
  "parseUrl E H url =
     bindE (decodeURIComponent E url) (\<lambda>href.
       let parsed = anchor H href
       in bindE (parseQS (js_or (jget parsed ''search'') (JStr []))) (\<lambda>search.
            Inr (JObj [(''hostname'', jget parsed ''hostname''),
                       (''search'', JObj search),
                       (''host'', js_or (jget parsed ''host'') (window_location_host H))])))"

text \<open>\<open>Configure.init\<close>. \<open>ajax\<close> takes the request; the response comes with a later call of
  one of the two callbacks.\<close>

definition init ::
  "engine \<Rightarrow> host \<Rightarrow> Configure \<Rightarrow> state \<Rightarrow> (jsval option \<times> Configure) \<times> state" where
  "init E H this s =
     (case pageDetails s of
        None \<Rightarrow> ((Some TypeError, this), s)
      | Some pd \<Rightarrow>
          (case parseUrl E H (topmostLocation pd) of
             Inl e \<Rightarrow> ((Some e, this), s)
           | Inr urlObj \<Rightarrow>
               if truthy (deepAccess urlObj ''search.medianet_test'')
                  \<or> strict_eq (jget urlObj ''hostname'') (JStr ''localhost'')
               then ((None, this\<lparr>loggingPercent := JNum 100, ajaxState := CONFIG_PASS,
                                  debug := JBool True\<rparr>), s)
               else
                 (let this' = (if truthy (deepAccess urlObj ''search.mnet_setconfig'')
                               then this\<lparr>mnetDebugConfig :=
                                      deepAccess urlObj ''search.mnet_setconfig''\<rparr>
                               else this)
                  in ((None, this'),
                      s\<lparr>ajax_calls := ajax_calls s @ [configURL E pd this']\<rparr>))))"

subsection \<open>PageDetail\<close>

definition getWindowSize :: "engine \<Rightarrow> host \<Rightarrow> jsval" where
  "getWindowSize E H =
     (let w = js_or (js_or (js_or (window_innerWidth H) (documentElement_clientWidth H))
                (body_clientWidth H)) (JNum (- 1));
          h = js_or (js_or (js_or (window_innerHeight H) (documentElement_clientHeight H))
                (body_clientHeight H)) (JNum (- 1))
      in JStr (toString E w @ ''x'' @ toString E h))"

text \<open>\<open>_getAttributeFromSelector\<close>: whatever its \<open>try\<close> block throws is dropped.\<close>

definition getAttributeFromSelector :: "host \<Rightarrow> string \<Rightarrow> string \<Rightarrow> jsval" where
  "getAttributeFromSelector H selector attribute =
     (case querySelector H selector of
        Inl e \<Rightarrow> JUndefined
      | Inr element \<Rightarrow>
          if element = JUndefined then JUndefined
          else if element \<noteq> JNull \<and> truthy (jget element attribute)
          then jget element attribute
          else JUndefined)"

definition getUrlFromSelector :: "host \<Rightarrow> string \<Rightarrow> string \<Rightarrow> jsval + jsval" where
  "getUrlFromSelector H selector attribute =
     (let attr = getAttributeFromSelector H selector attribute
      in if truthy attr then absoluteUrl H attr else Inr attr)"

definition new_PageDetail :: "engine \<Rightarrow> host \<Rightarrow> jsval + PageDetail" where
  "new_PageDetail E H =
     bindE (getUrlFromSelector H (''meta[property='' @ dquote @ ''og:url'' @ dquote @ '']'')
              ''content'') (\<lambda>ogUrl.
     bindE (getUrlFromSelector H (''meta[name='' @ dquote @ ''twitter:url'' @ dquote @ '']'')
              ''content'') (\<lambda>twitterUrl.
     let refererInfo = getRefererInfo H
     in if nullish refererInfo then Inl TypeError
        else Inr \<lparr>domain = jget refererInfo ''domain'',
                  page = jget refererInfo ''page'',
                  is_top = jget refererInfo ''reachedTop'',
                  referrer = js_or (jget refererInfo ''ref'') (document_referrer H),
                  canonical_url = jget refererInfo ''canonicalUrl'',
                  og_url = ogUrl,
                  twitter_url = twitterUrl,
                  topmostLocation = jget refererInfo ''topmostLocation'',
                  screen = getWindowSize E H\<rparr>))"

text \<open>\<open>this[key]\<close> on a \<open>PageDetail\<close>, for the keys that name a field.\<close>

definition PageDetail_get :: "PageDetail \<Rightarrow> string \<Rightarrow> jsval" where
  "PageDetail_get this key =
     (if key = ''domain'' then domain this
      else if key = ''page'' then page this
      else if key = ''is_top'' then is_top this
      else if key = ''referrer'' then referrer this
      else if key = ''canonical_url'' then canonical_url this
      else if key = ''og_url'' then og_url this
      else if key = ''twitter_url'' then twitter_url this
      else if key = ''topmostLocation'' then topmostLocation this
      else if key = ''screen'' then screen this
      else JUndefined)"

definition PageDetail_getLoggingData :: "engine \<Rightarrow> Configure \<Rightarrow> PageDetail \<Rightarrow> props" where
  "PageDetail_getLoggingData E c this =
     [(''requrl'', js_or (PageDetail_get this (toString E (urlToConsume c))) (topmostLocation this)),
      (''dn'', domain this),
      (''ref'', referrer this),
      (''screen'', screen this)]"

subsection \<open>Bid, BidWrapper, AdSlot, Auction\<close>

definition new_Bid ::
  "jsval \<Rightarrow> jsval \<Rightarrow> jsval \<Rightarrow> jsval \<Rightarrow> jsval \<Rightarrow> jsval \<Rightarrow> jsval \<Rightarrow> jsval \<Rightarrow> props" where
  "new_Bid bidId bidder src start adUnitCode mediaType allMediaTypeSizes resSizes =
     [(''bidId'', bidId),
      (''bidder'', bidder),
      (''src'', src),
      (''start'', start),
      (''adUnitCode'', adUnitCode),
      (''allMediaTypeSizes'', allMediaTypeSizes),
      (''iwb'', JNum 0),
      (''winner'', JNum 0),
      (''status'', if strict_eq bidder (JStr DUMMY_BIDDER) then BID_SUCCESS else BID_TIMEOUT),
      (''ext'', JObj []),
      (''originalCpm'', JUndefined),
      (''cpm'', JUndefined),
      (''dfpbd'', JUndefined),
      (''width'', JUndefined),
      (''height'', JUndefined),
      (''mediaType'', mediaType),
      (''timeToRespond'', JUndefined),
      (''dealId'', JUndefined),
      (''creativeId'', JUndefined),
      (''adId'', JUndefined),
      (''currency'', JUndefined),
      (''crid'', JUndefined),
      (''pubcrid'', JUndefined),
      (''mpvid'', JUndefined),
      (''floorPrice'', JUndefined),
      (''floorRule'', JUndefined),
      (''serverLatencyMillis'', JUndefined),
      (''used'', JBool False),
      (''originalRequestId'', bidId),
      (''requestId'', JUndefined),
      (''advUrl'', JUndefined),
      (''latestAcid'', JUndefined),
      (''originalCurrency'', JUndefined),
      (''currMul'', JUndefined),
      (''inCurrMul'', JUndefined),
      (''res_mtype'', JUndefined),
      (''res_sizes'', resSizes),
      (''req_mtype'', mediaType)]"

text \<open>The getter \<open>size\<close> of a \<open>Bid\<close>.\<close>

definition Bid_size :: "engine \<Rightarrow> props \<Rightarrow> string" where
  "Bid_size E this =
     (if \<not> truthy (pget this ''width'') \<or> \<not> truthy (pget this ''height'') then []
      else toString E (pget this ''width'') @ ''x'' @ toString E (pget this ''height''))"

definition Bid_getInstance :: "props \<Rightarrow> props" where
  "Bid_getInstance bidProps =
     assign (new_Bid JUndefined JUndefined JUndefined JUndefined JUndefined JUndefined
               JUndefined JUndefined) bidProps"

definition Bid_getLoggingData :: "engine \<Rightarrow> props \<Rightarrow> jsval + props" where
  "Bid_getLoggingData E this =
     bindE (join_strict E ''|'' (pget this ''allMediaTypeSizes'')) (\<lambda>szs.
     bindE (join_strict E ''|'' (js_or (pget this ''res_sizes'') (JArr [JStr (Bid_size E this)])))
       (\<lambda>size.
       Inr [(''reqId'', js_or (pget this ''requestId'') (pget this ''bidId'')),
            (''ogReqId'', pget this ''originalRequestId''),
            (''adid'', pget this ''adId''),
            (''pvnm'', pget this ''bidder''),
            (''src'', pget this ''src''),
            (''ogbdp'', pget this ''originalCpm''),
            (''bdp'', pget this ''cpm''),
            (''cbdp'', pget this ''dfpbd''),
            (''dfpbd'', pget this ''dfpbd''),
            (''szs'', JStr szs),
            (''size'', JStr size),
            (''mtype'', pget this ''mediaType''),
            (''dId'', pget this ''dealId''),
            (''winner'', pget this ''winner''),
            (''curr'', pget this ''currency''),
            (''rests'', pget this ''timeToRespond''),
            (''status'', pget this ''status''),
            (''iwb'', pget this ''iwb''),
            (''crid'', pget this ''crid''),
            (''pubcrid'', pget this ''pubcrid''),
            (''mpvid'', pget this ''mpvid''),
            (''bidflr'', pget this ''floorPrice''),
            (''flrrule'', pget this ''floorRule''),
            (''ext'', JSON_stringify E (pget this ''ext'')),
            (''rtime'', pget this ''serverLatencyMillis''),
            (''advurl'', pget this ''advUrl''),
            (''lacid'', pget this ''latestAcid''),
            (''icurr'', pget this ''originalCurrency''),
            (''imul'', pget this ''inCurrMul''),
            (''omul'', pget this ''currMul''),
            (''res_mtype'', pget this ''res_mtype''),
            (''req_mtype'', pget this ''req_mtype'')]))"

definition new_BidWrapper :: BidWrapper where
  "new_BidWrapper = \<lparr>bidReqs = [], bidObjs = []\<rparr>"

definition findReqBid :: "BidWrapper \<Rightarrow> jsval \<Rightarrow> props option" where
  "findReqBid this bidId = find (\<lambda>bid. strict_eq (pget bid ''bidId'') bidId) (bidReqs this)"

definition findBidObj :: "BidWrapper \<Rightarrow> string \<Rightarrow> jsval \<Rightarrow> props option" where
  "findBidObj this key v = find (\<lambda>bid. strict_eq (pget bid key) v) (bidObjs this)"

definition addBidReq :: "BidWrapper \<Rightarrow> props \<Rightarrow> BidWrapper" where
  "addBidReq this bidRequest = this\<lparr>bidReqs := bidReqs this @ [bidRequest]\<rparr>"

text \<open>
  \<open>BidWrapper.addBidObj\<close>; \<open>isBid\<close> says whether the argument is an instance of \<open>Bid\<close>
  (the dummy bid of a slot is, a copy made with the spread operator is not).
\<close>

definition addBidObj :: "BidWrapper \<Rightarrow> bool \<Rightarrow> props \<Rightarrow> BidWrapper" where
  "addBidObj this isBid bidObj0 =
     (let bidObj = (if \<not> isBid then Bid_getInstance bidObj0 else bidObj0)
      in this\<lparr>bidReqs :=
                (case findReqBid this (pget bidObj ''bidId'') of
                   None \<Rightarrow> bidReqs this
                 | Some bidReq \<Rightarrow>
                     update_first (\<lambda>bid. strict_eq (pget bid ''bidId'') (pget bidObj ''bidId''))
                       (\<lambda>bid. pset bid ''used'' (JBool True)) (bidReqs this)),
              bidObjs := bidObjs this @ [bidObj]\<rparr>)"

definition getAdSlotBidRequests :: "BidWrapper \<Rightarrow> jsval \<Rightarrow> props list" where
  "getAdSlotBidRequests this adSlot =
     filter (\<lambda>bid. strict_eq (pget bid ''adUnitCode'') adSlot) (bidReqs this)"

definition getAdSlotBidResponses :: "BidWrapper \<Rightarrow> jsval \<Rightarrow> props list" where
  "getAdSlotBidResponses this adSlot =
     filter (\<lambda>bid. strict_eq (pget bid ''adUnitCode'') adSlot) (bidObjs this)"

definition new_AdSlot :: "jsval \<Rightarrow> jsval \<Rightarrow> jsval \<Rightarrow> jsval \<Rightarrow> AdSlot" where
  "new_AdSlot t s c a =
     \<lparr>tmax = t, supplyAdCode = s, context' = c, adext = a, logged = [],
      targeting = JUndefined, medianetPresent = JNum 0\<rparr>"

definition getVideoPlacement :: "host \<Rightarrow> AdSlot \<Rightarrow> jsval" where
  "getVideoPlacement H this =
     (if strict_eq (context' this) (INSTREAM H) then JNum 1
      else if strict_eq (context' this) (OUTSTREAM H) then JNum 6
      else if strict_eq (context' this) (ADPOD H) then JNum 7
      else JNum 0)"

definition AdSlot_getLoggingData :: "engine \<Rightarrow> host \<Rightarrow> AdSlot \<Rightarrow> props" where
  "AdSlot_getLoggingData E H this =
     assign [(''supcrid'', supplyAdCode this),
             (''tmax'', tmax this),
             (''targ'', JSON_stringify E (targeting this)),
             (''ismn'', medianetPresent this),
             (''vplcmtt'', getVideoPlacement H this)]
       (if truthy (adext this) then [(''adext'', JSON_stringify E (adext this))] else [])"

definition new_Auction :: "host \<Rightarrow> jsval \<Rightarrow> Auction" where
  "new_Auction H a =
     \<lparr>acid = a, status = AUCTION_IN_PROGRESS H, bidWrapper = new_BidWrapper, adSlots = [],
      auctionInitTime = JUndefined, auctionStartTime = JUndefined,
      setTargetingTime = JUndefined, auctionEndTime = JUndefined, bidWonTime = JUndefined,
      floorData = JObj []\<rparr>"

definition hasEnded :: "host \<Rightarrow> Auction \<Rightarrow> bool" where
  "hasEnded H this = strict_eq (status this) (AUCTION_COMPLETED H)"

definition mergeFieldsToLog :: "engine \<Rightarrow> props \<Rightarrow> string" where
  "mergeFieldsToLog E objParams =
     join ''||'' (map (\<lambda>(param, v).
       param @ ''='' @ (if v = JUndefined then [] else toString E v)) objParams)"

definition Auction_getLoggingData :: "engine \<Rightarrow> Auction \<Rightarrow> props" where
  "Auction_getLoggingData E this =
     [(''sts'', js_minus E (auctionStartTime this) (auctionInitTime this)),
      (''ets'', js_minus E (auctionEndTime this) (auctionInitTime this)),
      (''tts'', js_minus E (setTargetingTime this) (auctionInitTime this)),
      (''wts'', js_minus E (bidWonTime this) (auctionInitTime this)),
      (''aucstatus'', status this),
      (''acid'', acid this),
      (''flrdata'', JStr (mergeFieldsToLog E
         [(''ln'', jget (floorData this) ''location''),
          (''skp'', jget (floorData this) ''skipped''),
          (''enfj'', deepAccess (floorData this) ''enforcements.enforceJS''),
          (''enfd'', deepAccess (floorData this) ''enforcements.floorDeals''),
          (''sr'', jget (floorData this) ''skipRate''),
          (''fs'', jget (floorData this) ''fetchStatus'')])),
      (''flrver'', jget (floorData this) ''modelVersion'')]"

text \<open>
  \<open>auctions[auctionId].addSlot({...})\<close>: a TypeError when there is no such auction. The
  dummy bid of the slot takes a reading of \<open>Date.now()\<close>.
\<close>

definition addSlot ::
  "string \<Rightarrow> string \<Rightarrow> jsval \<Rightarrow> jsval \<Rightarrow> jsval \<Rightarrow> jsval \<Rightarrow> jsval \<Rightarrow> jsval \<Rightarrow> unit M" where
  "addSlot auctionKey adUnitCode supplyAdCode' mediaTypes allMediaTypeSizes tmax' adext' ctx =
     bindM (getAuction auctionKey) (\<lambda>a.
       if adUnitCode \<noteq> [] \<and> map_of (adSlots a) adUnitCode = None then
         bindM dateNow (\<lambda>now.
           update_auction auctionKey (\<lambda>a.
             a\<lparr>adSlots := adSlots a @ [(adUnitCode, new_AdSlot tmax' supplyAdCode' ctx adext')],
               bidWrapper := addBidObj (bidWrapper a) True
                 (new_Bid (JStr ''-1'') (JStr DUMMY_BIDDER) (JStr ''client'') now
                    (JStr adUnitCode) mediaTypes allMediaTypeSizes JUndefined)\<rparr>))
       else returnM ())"

subsection \<open>Event handlers: auctionInit and bidRequested\<close>

text \<open>\<open>_getSizes\<close>: the banner, native and video sizes, each as \<open>WxH\<close>.\<close>

definition getSizes ::
  "engine \<Rightarrow> jsval \<Rightarrow> jsval \<Rightarrow> jsval + (string list \<times> string list \<times> string list)" where
  "getSizes E mediaTypes sizes =
     (let banner = js_or (js_or (deepAccess mediaTypes ''banner.sizes'') sizes) (JArr []);
          native = (if truthy (deepAccess mediaTypes ''native'')
                    then [JArr [JNum 1, JNum 1]] else []);
          playerSize = js_or (deepAccess mediaTypes ''video.playerSize'') (JArr []);
          video = (if strict_eq (jget playerSize ''length'') (JNum 2) then [playerSize] else [])
      in bindE (as_array banner) (\<lambda>bs.
         bindE (map_exn (join_strict E ''x'') bs) (\<lambda>b.
         bindE (map_exn (join_strict E ''x'') native) (\<lambda>n.
         bindE (map_exn (join_strict E ''x'') video) (\<lambda>v.
           Inr (b, n, v))))))"

text \<open>
  The callback of \<open>adUnits.forEach\<close> in \<open>addAddSlots\<close>, on what it accumulates: \<open>adext\<close>,
  \<open>context\<close>, \<open>mediaTypeMap\<close> and the banner and video sizes.
\<close>

definition addAddSlots_unit ::
  "engine \<Rightarrow> props \<times> jsval \<times> props \<times> string list \<times> string list \<Rightarrow> jsval
     \<Rightarrow> jsval + props \<times> jsval \<times> props \<times> string list \<times> string list" where
  "addAddSlots_unit E acc u =
     (case acc of (adext0, ctx, mediaTypeMap, banner, video) \<Rightarrow>
        if nullish u then Inl TypeError
        else
          (let mediaTypes = js_or (jget u ''mediaTypes'') (JObj []);
               adext1 = assign adext0
                 (own_props (js_or (jget u ''ext'') (deepAccess mediaTypes ''banner.ext'')));
               ctx1 = js_or (deepAccess mediaTypes ''video.context'') ctx;
               mediaTypeMap1 = foldl (\<lambda>m mediaType. pset m mediaType (JNum 1)) mediaTypeMap
                 (map fst (own_props mediaTypes))
           in case getSizes E mediaTypes (jget u ''sizes'') of
                Inl e \<Rightarrow> Inl e
              | Inr (b, n, v) \<Rightarrow> Inr (adext1, ctx1, mediaTypeMap1, banner @ b, video @ v)))"

fun addAddSlots_units ::
  "engine \<Rightarrow> props \<times> jsval \<times> props \<times> string list \<times> string list \<Rightarrow> jsval list
     \<Rightarrow> jsval + props \<times> jsval \<times> props \<times> string list \<times> string list" where
  "addAddSlots_units E acc [] = Inr acc"
| "addAddSlots_units E acc (u # us) =
     (case addAddSlots_unit E acc u of
        Inl e \<Rightarrow> Inl e
      | Inr acc' \<Rightarrow> addAddSlots_units E acc' us)"

text \<open>The callback of \<open>Object.keys(groupedAdUnits).forEach\<close> in \<open>addAddSlots\<close>.\<close>

definition addAddSlots_group ::
  "engine \<Rightarrow> jsval \<Rightarrow> jsval \<Rightarrow> string \<times> jsval list \<Rightarrow> unit M" where
  "addAddSlots_group E auctionId tmax' g =
     (case g of (adUnitCode, adUnits) \<Rightarrow>
        let supplyAdCode' = js_or (deepAccess (JArr adUnits) ''0.adUnitCode'') (JStr adUnitCode)
        in bindM (liftE (addAddSlots_units E ([], JStr [], [], [], []) adUnits))
             (\<lambda>(adext0, ctx, mediaTypeMap, banner, video).
               let adext1 = (if isEmpty adext0 then JUndefined else JObj adext0);
                   native = (if strict_eq (pget mediaTypeMap ''native'') (JNum 1)
                             then [array_join E ''x'' [JNum 1, JNum 1]] else []);
                   allMediaTypeSizes = JArr (map JStr (uniques banner @ native @ uniques video));
                   mediaTypes = JStr (join ''|'' (map fst mediaTypeMap))
               in addSlot (toString E auctionId) adUnitCode supplyAdCode' mediaTypes
                    allMediaTypeSizes tmax' adext1 ctx))"

definition addAddSlots :: "engine \<Rightarrow> jsval \<Rightarrow> jsval \<Rightarrow> jsval \<Rightarrow> unit M" where
  "addAddSlots E auctionId adUnits tmax' =
     bindM (liftE (groupBy E (js_or adUnits (JArr [])) ''code''))
       (forEachM (addAddSlots_group E auctionId tmax'))"

definition auctionInitHandler :: "engine \<Rightarrow> host \<Rightarrow> jsval \<Rightarrow> unit M" where
  "auctionInitHandler E H args =
     (if nullish args then throwM TypeError
      else
        (let auctionId = jget args ''auctionId'';
             k = toString E auctionId
         in bindM (\<lambda>s.
              if truthy auctionId \<and> map_of (auctions s) k = None
              then (Inr (), s\<lparr>auctions := auctions s
                      @ [(k, (new_Auction H auctionId)\<lparr>auctionInitTime := jget args ''timestamp''\<rparr>)]\<rparr>)
              else (Inr (), s)) (\<lambda>_.
            bindM (addAddSlots E auctionId (jget args ''adUnits'') (jget args ''timeout'')) (\<lambda>_.
              let floorData' = deepAccess (jget args ''bidderRequests'') ''0.bids.0.floorData''
              in if truthy floorData'
                 then bindM (getAuction k) (\<lambda>_.
                        update_auction k (\<lambda>a. a\<lparr>floorData := JObj (own_props floorData')\<rparr>))
                 else returnM ()))))"

text \<open>The callback of \<open>bids.forEach\<close> in \<open>bidRequestedHandler\<close>.\<close>

definition bidRequested_bid :: "engine \<Rightarrow> string \<Rightarrow> jsval \<Rightarrow> jsval \<Rightarrow> unit M" where
  "bidRequested_bid E k start bid =
     (if nullish bid then throwM TypeError
      else
        (let mediaTypes = jget bid ''mediaTypes'';
             bidder = jget bid ''bidder'';
             adUnitKey = toString E (jget bid ''adUnitCode'')
         in bindM (liftE (getSizes E mediaTypes (jget bid ''sizes''))) (\<lambda>(b, n, v).
              let bidObj = new_Bid (jget bid ''bidId'') bidder (jget bid ''src'') start
                    (jget bid ''adUnitCode'')
                    (if truthy mediaTypes
                     then JStr (join ''|'' (map fst (own_props mediaTypes))) else mediaTypes)
                    (JArr (map JStr (b @ n @ v))) JUndefined
              in if strict_eq bidder (JStr MEDIANET_BIDDER_CODE) then
                   bindM (update_auction k (\<lambda>a. a\<lparr>bidWrapper := addBidReq (bidWrapper a)
                            (pset (pset bidObj ''crid'' (deepAccess bid ''params.crid''))
                               ''pubcrid'' (deepAccess bid ''params.crid''))\<rparr>)) (\<lambda>_.
                   bindM (getAuction k) (\<lambda>a.
                     if map_of (adSlots a) adUnitKey = None then throwM TypeError
                     else update_auction k (\<lambda>a. a\<lparr>adSlots :=
                            update_key adUnitKey (\<lambda>slot. slot\<lparr>medianetPresent := JNum 1\<rparr>)
                              (adSlots a)\<rparr>)))
                 else update_auction k (\<lambda>a. a\<lparr>bidWrapper := addBidReq (bidWrapper a) bidObj\<rparr>))))"

definition bidRequestedHandler :: "engine \<Rightarrow> jsval \<Rightarrow> unit M" where
  "bidRequestedHandler E args =
     (if nullish args then throwM TypeError
      else
        (let k = toString E (jget args ''auctionId'');
             gdpr = jget args ''gdpr''
         in (\<lambda>s.
           if map_of (auctions s) k = None then (Inr (), s)
           else
             bindM getConfig (\<lambda>_.
             bindM (update_config (\<lambda>c. c\<lparr>gdprApplies :=
                      JBool (truthy (js_and gdpr (jget gdpr ''gdprApplies'')))\<rparr>)) (\<lambda>_.
             bindM getConfig (\<lambda>c.
             bindM (if truthy (gdprApplies c)
                    then update_config (\<lambda>c. c\<lparr>gdprConsent :=
                           js_or (jget gdpr ''consentString'') (JStr [])\<rparr>)
                    else returnM ()) (\<lambda>_.
             bindM (update_config (\<lambda>c. c\<lparr>uspConsent :=
                      js_or (uspConsent c) (jget args ''uspConsent'')\<rparr>)) (\<lambda>_.
             bindM (update_auction k (\<lambda>a. a\<lparr>auctionStartTime := jget args ''auctionStart''\<rparr>))
               (\<lambda>_.
             bindM (liftE (as_array (jget args ''bids'')))
               (forEachM (bidRequested_bid E k (jget args ''start'')))))))))
             s)))"

subsection \<open>Event handlers: bid responses\<close>

definition exchangeCurrency :: "engine \<Rightarrow> host \<Rightarrow> jsval \<Rightarrow> jsval \<Rightarrow> jsval \<Rightarrow> jsval M" where
  "exchangeCurrency E H price fromCurrency toCurrency =
     (let failed = bindM (logError (''Media.net Analytics Adapter: Could not convert ''
                      @ toString E fromCurrency @ '' to '' @ toString E toCurrency
                      @ '' for price '' @ toString E price)) (\<lambda>_. returnM price)
      in case convertCurrency H price fromCurrency toCurrency of
           Inl e \<Rightarrow> failed
         | Inr converted \<Rightarrow>
             if is_number converted then returnM (toFixed4 E converted) else failed)"

text \<open>\<open>c ? c.toUpperCase() : d\<close>.\<close>

definition upper_or :: "engine \<Rightarrow> jsval \<Rightarrow> jsval \<Rightarrow> jsval + jsval" where
  "upper_or E c d =
     (if truthy c then (case c of JStr x \<Rightarrow> Inr (JStr (toUpperCase E x)) | _ \<Rightarrow> Inl TypeError)
      else Inr d)"

text \<open>\<open>meta && meta.advertiserDomains && meta.advertiserDomains.join(',')\<close>.\<close>

definition advertiserDomains :: "engine \<Rightarrow> jsval \<Rightarrow> jsval + jsval" where
  "advertiserDomains E meta =
     (if \<not> truthy meta then Inr meta
      else if \<not> truthy (jget meta ''advertiserDomains'') then Inr (jget meta ''advertiserDomains'')
      else bindE (join_strict E '','' (jget meta ''advertiserDomains'')) (\<lambda>x. Inr (JStr x)))"

text \<open>
  The assignments of \<open>bidResponseHandler\<close> to \<open>bidObj\<close> from the two currency conversions
  on; none of them throws.
\<close>

definition bidResponse_finish :: "engine \<Rightarrow> host \<Rightarrow> jsval \<Rightarrow> props \<Rightarrow> props M" where
  "bidResponse_finish E H bid bidObj0 =
     (let bidObj1 = pset (pset bidObj0 ''currMul'' (JNum 1)) ''inCurrMul'' (JNum 1)
      in bindM (if \<not> strict_eq (pget bidObj1 ''originalCurrency'') (JStr ''USD'') then
                  bindM (exchangeCurrency E H (pget bidObj1 ''originalCpm'')
                           (pget bidObj1 ''originalCurrency'') (JStr ''USD'')) (\<lambda>x.
                  bindM (exchangeCurrency E H (JNum 1) (JStr ''USD'')
                           (pget bidObj1 ''originalCurrency'')) (\<lambda>y.
                    returnM (pset (pset bidObj1 ''originalCpm'' x) ''inCurrMul'' y)))
                else returnM bidObj1) (\<lambda>bidObj2.
         bindM (if \<not> strict_eq (pget bidObj2 ''currency'') (JStr ''USD'') then
                  bindM (exchangeCurrency E H (pget bidObj2 ''cpm'')
                           (pget bidObj2 ''currency'') (JStr ''USD'')) (\<lambda>x.
                  bindM (exchangeCurrency E H (JNum 1) (JStr ''USD'')
                           (pget bidObj2 ''currency'')) (\<lambda>y.
                    returnM (pset (pset bidObj2 ''cpm'' x) ''currMul'' y)))
                else returnM bidObj2) (\<lambda>bidObj3.
           let hb_pb = deepAccess bid ''adserverTargeting.hb_pb'';
               dfpbd = (if \<not> truthy hb_pb then
                          js_or (jget bid (toString E
                                   (pget PRICE_GRANULARITY (toString E (getPriceGranularity H bid)))))
                            (jget bid ''cpm'')
                        else hb_pb);
               bidObj4 = pset bidObj3 ''dfpbd'' dfpbd;
               bidObj5 = pset bidObj4 ''status''
                 (if strict_eq (jget bid ''status'') (BID_STATUS_BID_REJECTED H)
                  then BID_FLOOR_REJECTED else BID_SUCCESS);
               ext = jget bid ''ext'';
               bidObj6 = (if strict_eq (jget bid ''bidder'') (JStr MEDIANET_BIDDER_CODE)
                             \<and> instanceof_Object ext
                          then assign (assign (assign bidObj5 [(''ext'', ext)])
                                 [(''mpvid'', jget ext ''pvid'')])
                                 (if truthy (jget ext ''crid'') then [(''crid'', jget ext ''crid'')]
                                  else [])
                          else bidObj5);
               bidObj7 = (if jget bid ''serverResponseTimeMs'' \<noteq> JUndefined
                          then pset bidObj6 ''serverLatencyMillis'' (jget bid ''serverResponseTimeMs'')
                          else bidObj6)
           in returnM (pset bidObj7 ''res_mtype'' (jget bid ''mediaType'')))))"

text \<open>
  \<open>bidResponseHandler\<close>. When the bid found under \<open>requestId\<close> is overridden, the
  assignments go to that element of \<open>bidObjs\<close>, and stay when \<open>join\<close> throws.
\<close>

definition store_bidObj :: "string \<Rightarrow> jsval \<Rightarrow> props \<Rightarrow> unit M" where
  "store_bidObj k requestId bidObj =
     update_auction k (\<lambda>a. a\<lparr>bidWrapper := (bidWrapper a)\<lparr>bidObjs :=
       update_first (\<lambda>b. strict_eq (pget b ''bidId'') requestId) (\<lambda>_. bidObj)
         (bidObjs (bidWrapper a))\<rparr>\<rparr>)"

definition bidResponseHandler :: "engine \<Rightarrow> host \<Rightarrow> jsval \<Rightarrow> unit M" where
  "bidResponseHandler E H bid =
     (if nullish bid then throwM TypeError
      else (\<lambda>s.
        let k = toString E (jget bid ''auctionId'');
            requestId = jget bid ''requestId''
        in case map_of (auctions s) k of
             None \<Rightarrow> (Inr (), s)
           | Some a \<Rightarrow>
               (case findReqBid (bidWrapper a) (js_or (jget bid ''originalRequestId'') requestId) of
                  None \<Rightarrow> (Inr (), s)
                | Some bidReq \<Rightarrow>
                    (let found = findBidObj (bidWrapper a) ''bidId'' requestId;
                         isBidOverridden = (case found of
                            None \<Rightarrow> False
                          | Some b \<Rightarrow> \<not> strict_eq (pget b ''status'') BID_SUCCESS);
                         bidObj0 = (case found of
                            None \<Rightarrow> []
                          | Some b \<Rightarrow> if isBidOverridden then b else [])
                     in bindM (liftE (upper_or E (jget bid ''currency'') (JStr []))) (\<lambda>currency.
                        bindM (liftE (upper_or E (jget bid ''originalCurrency'') currency))
                          (\<lambda>originalCurrency.
                          let bidObj1 = assign (assign (assign bidObj0 bidReq)
                                [(''cpm'', jget bid ''cpm''),
                                 (''width'', jget bid ''width''),
                                 (''height'', jget bid ''height''),
                                 (''mediaType'', jget bid ''mediaType''),
                                 (''timeToRespond'', jget bid ''timeToRespond''),
                                 (''dealId'', jget bid ''dealId''),
                                 (''creativeId'', jget bid ''creativeId''),
                                 (''originalRequestId'', jget bid ''originalRequestId''),
                                 (''requestId'', requestId)])
                                [(''adId'', jget bid ''adId''),
                                 (''currency'', currency),
                                 (''originalCurrency'', originalCurrency)];
                              bidObj2 = pset (pset (pset bidObj1
                                ''floorPrice'' (deepAccess bid ''floorData.floorValue''))
                                ''floorRule'' (deepAccess bid ''floorData.floorRule''))
                                ''originalCpm'' (js_or (jget bid ''originalCpm'') (jget bid ''cpm''))
                          in case advertiserDomains E (jget bid ''meta'') of
                               Inl e \<Rightarrow>
                                 bindM (if isBidOverridden then store_bidObj k requestId bidObj2
                                        else returnM ()) (\<lambda>_. throwM e)
                             | Inr advUrl \<Rightarrow>
                                 bindM (bidResponse_finish E H bid (pset bidObj2 ''advUrl'' advUrl))
                                   (\<lambda>bidObj.
                                   if isBidOverridden then store_bidObj k requestId bidObj
                                   else update_auction k (\<lambda>a. a\<lparr>bidWrapper :=
                                          addBidObj (bidWrapper a) False bidObj\<rparr>))))
                          s))))"

subsection \<open>Event handlers: no bid, timeout, auction end\<close>

definition noBidResponseHandler :: "engine \<Rightarrow> host \<Rightarrow> jsval \<Rightarrow> unit M" where
  "noBidResponseHandler E H args =
     (if nullish args then throwM TypeError
      else (\<lambda>s.
        let k = toString E (jget args ''auctionId'')
        in case map_of (auctions s) k of
             None \<Rightarrow> (Inr (), s)
           | Some a \<Rightarrow>
               if hasEnded H a then (Inr (), s)
               else (case findReqBid (bidWrapper a) (jget args ''bidId'') of
                       None \<Rightarrow> (Inr (), s)
                     | Some bidReq \<Rightarrow>
                         if truthy (pget bidReq ''used'') then (Inr (), s)
                         else update_auction k (\<lambda>a. a\<lparr>bidWrapper :=
                                addBidObj (bidWrapper a) False (pset bidReq ''status'' BID_NOBID)\<rparr>)
                                s)))"

text \<open>The callback of \<open>timedOutBids.map\<close> in \<open>bidTimeoutHandler\<close>.\<close>

definition bidTimeout_bid :: "engine \<Rightarrow> jsval \<Rightarrow> unit M" where
  "bidTimeout_bid E args =
     (if nullish args then throwM TypeError
      else (\<lambda>s.
        let k = toString E (jget args ''auctionId'')
        in case map_of (auctions s) k of
             None \<Rightarrow> (Inr (), s)
           | Some a \<Rightarrow>
               (case findReqBid (bidWrapper a) (jget args ''bidId'') of
                  None \<Rightarrow> (Inr (), s)
                | Some bidReq \<Rightarrow>
                    if truthy (pget bidReq ''used'') then (Inr (), s)
                    else update_auction k (\<lambda>a. a\<lparr>bidWrapper :=
                           addBidObj (bidWrapper a) False (pset bidReq ''status'' BID_TIMEOUT)\<rparr>)
                           s)))"

definition bidTimeoutHandler :: "engine \<Rightarrow> jsval \<Rightarrow> unit M" where
  "bidTimeoutHandler E timedOutBids =
     bindM (liftE (as_array timedOutBids)) (forEachM (bidTimeout_bid E))"

definition auctionEndHandler :: "engine \<Rightarrow> host \<Rightarrow> jsval \<Rightarrow> unit M" where
  "auctionEndHandler E H args =
     (if nullish args then throwM TypeError
      else (\<lambda>s.
        let k = toString E (jget args ''auctionId'')
        in if map_of (auctions s) k = None then (Inr (), s)
           else update_auction k (\<lambda>a. a\<lparr>status := AUCTION_COMPLETED H,
                  auctionEndTime := jget args ''auctionEnd''\<rparr>) s))"

subsection \<open>Auction logs\<close>

definition isSampled :: "engine \<Rightarrow> bool M" where
  "isSampled E =
     bindM mathRandom (\<lambda>r.
     bindM getConfig (\<lambda>c.
       returnM (js_less E (js_times E r (JNum 100)) (parseFloat E (loggingPercent c)))))"

definition getShouldBeLogged :: "engine \<Rightarrow> string \<Rightarrow> jsval M" where
  "getShouldBeLogged E logType =
     bindM getConfig (\<lambda>c.
     bindM (if \<not> has_own (shouldBeLogged c) logType then
              bindM (isSampled E) (\<lambda>b.
                update_config (\<lambda>c. c\<lparr>shouldBeLogged := pset (shouldBeLogged c) logType (JBool b)\<rparr>))
            else returnM ()) (\<lambda>_.
     bindM getConfig (\<lambda>c. returnM (pget (shouldBeLogged c) logType))))"

definition isValidAuctionAdSlot :: "state \<Rightarrow> string \<Rightarrow> string \<Rightarrow> bool" where
  "isValidAuctionAdSlot s acid' adtag =
     (case map_of (auctions s) acid' of
        None \<Rightarrow> False
      | Some a \<Rightarrow> map_of (adSlots a) adtag \<noteq> None)"

text \<open>
  \<open>getCommonLoggingData\<close>, called for an auction and a slot that exist (\<open>sendEvent\<close> has
  checked it).
\<close>

definition getCommonLoggingData :: "engine \<Rightarrow> host \<Rightarrow> Auction \<Rightarrow> AdSlot \<Rightarrow> props M" where
  "getCommonLoggingData E H a slot =
     bindM getPageDetails (\<lambda>pd.
     bindM getConfig (\<lambda>c.
       returnM (assign (assign (assign (PageDetail_getLoggingData E c pd)
                  (Configure_getLoggingData E c))
                  (AdSlot_getLoggingData E H slot))
                  (Auction_getLoggingData E a))))"

definition size_path :: "engine \<Rightarrow> props \<Rightarrow> jsval \<Rightarrow> string" where
  "size_path E bid sz = toString E (pget bid ''bidId'') @ ''.'' @ toString E sz"

text \<open>
  \<open>getResponseSizeMap\<close>, first pass: the bids of the slot that have a size are marked in
  \<open>receivedResponse\<close>.
\<close>

definition responseSizeMap_success :: "engine \<Rightarrow> jsval \<Rightarrow> props list \<Rightarrow> jsval" where
  "responseSizeMap_success E adtag objs =
     foldl (\<lambda>receivedResponse bid.
        deepSetValue receivedResponse (size_path E bid (JStr (Bid_size E bid))) (JBool True))
       (JObj [])
       (filter (\<lambda>bid. Bid_size E bid \<noteq> [])
          (filter (\<lambda>bid. strict_eq (pget bid ''adUnitCode'') adtag) objs))"

text \<open>
  Second pass, over \<open>bidObjs\<close>: a bid of the slot that has no size gets as \<open>res_sizes\<close> the
  sizes not marked yet, and marks its sizes. The result is the exception thrown, if any,
  \<open>bidObjs\<close> as the pass leaves it, and \<open>receivedResponse\<close>.
\<close>

fun responseSizeMap_rest ::
  "engine \<Rightarrow> jsval \<Rightarrow> jsval \<Rightarrow> props list \<Rightarrow> jsval option \<times> props list \<times> jsval" where
  "responseSizeMap_rest E adtag receivedResponse [] = (None, [], receivedResponse)"
| "responseSizeMap_rest E adtag receivedResponse (bid # bids) =
     (if strict_eq (pget bid ''adUnitCode'') adtag \<and> Bid_size E bid = [] then
        (case pget bid ''allMediaTypeSizes'' of
           JArr sizes \<Rightarrow>
             (let bid' = pset bid ''res_sizes''
                    (JArr (filter (\<lambda>size.
                       \<not> truthy (deepAccess receivedResponse (size_path E bid size))) sizes));
                  receivedResponse' = foldl (\<lambda>rr size.
                       deepSetValue rr (size_path E bid size) (JBool True)) receivedResponse sizes
              in case responseSizeMap_rest E adtag receivedResponse' bids of
                   (e, bids', rr) \<Rightarrow> (e, bid' # bids', rr))
         | _ \<Rightarrow> (Some TypeError, bid # bids, receivedResponse))
      else (case responseSizeMap_rest E adtag receivedResponse bids of
              (e, bids', rr) \<Rightarrow> (e, bid # bids', rr)))"

definition getResponseSizeMap :: "engine \<Rightarrow> string \<Rightarrow> jsval \<Rightarrow> jsval M" where
  "getResponseSizeMap E k adtag =
     bindM (getAuction k) (\<lambda>a.
       case responseSizeMap_rest E adtag
              (responseSizeMap_success E adtag (bidObjs (bidWrapper a))) (bidObjs (bidWrapper a)) of
         (e, objs, receivedResponse) \<Rightarrow>
           bindM (update_auction k (\<lambda>a. a\<lparr>bidWrapper := (bidWrapper a)\<lparr>bidObjs := objs\<rparr>\<rparr>)) (\<lambda>_.
             case e of Some x \<Rightarrow> throwM x | None \<Rightarrow> returnM receivedResponse))"

text \<open>The callback of \<open>forEach\<close> in \<open>getDummyBids\<close>: the bids it pushes, none or one.\<close>

definition getDummyBids_bid :: "engine \<Rightarrow> jsval \<Rightarrow> props \<Rightarrow> jsval + props list" where
  "getDummyBids_bid E receivedResponse req =
     (case pget req ''allMediaTypeSizes'' of
        JArr sizes \<Rightarrow>
          (let emptySizes = filter (\<lambda>size.
                 \<not> truthy (deepAccess receivedResponse (size_path E req size))) sizes
           in if \<not> strict_eq (pget req ''bidder'') (JStr DUMMY_BIDDER) \<and> 0 < length emptySizes
              then Inr [pset (new_Bid (pget req ''bidId'') (pget req ''bidder'') (pget req ''src'')
                               (pget req ''start'') (pget req ''adUnitCode'') (pget req ''mediaType'')
                               (pget req ''allMediaTypeSizes'') (JArr emptySizes))
                          ''status''
                          (if strict_eq (pget req ''status'') BID_SUCCESS then BID_NOBID
                           else pget req ''status'')]
              else Inr [])
      | _ \<Rightarrow> Inl TypeError)"

definition getDummyBids :: "engine \<Rightarrow> Auction \<Rightarrow> jsval \<Rightarrow> jsval \<Rightarrow> jsval + props list" where
  "getDummyBids E a adtag receivedResponse =
     bindE (map_exn (getDummyBids_bid E receivedResponse)
              (getAdSlotBidRequests (bidWrapper a) adtag))
       (\<lambda>pushed. Inr (concat pushed))"

definition getLoggingBids :: "engine \<Rightarrow> string \<Rightarrow> jsval \<Rightarrow> props list M" where
  "getLoggingBids E k adtag =
     bindM (getResponseSizeMap E k adtag) (\<lambda>receivedResponse.
     bindM (getAuction k) (\<lambda>a.
     bindM (liftE (getDummyBids E a adtag receivedResponse)) (\<lambda>dummyBids.
       returnM (getAdSlotBidResponses (bidWrapper a) adtag @ dummyBids))))"

text \<open>The rest pattern \<open>({mpvid, crid, ext, pubcrid, ...restParams}) => restParams\<close>.\<close>

definition restParams :: "props \<Rightarrow> props" where
  "restParams b = filter (\<lambda>(key, _). key \<notin> {''mpvid'', ''crid'', ''ext'', ''pubcrid''}) b"

text \<open>
  \<open>fireAuctionLog\<close>, called for an auction and a slot that exist, in two steps: the query
  string it builds (none when the log type is \<open>RA\<close> and the winning bid is not found), and
  the call of \<open>firePixel\<close>. \<open>adId\<close> is read for the log type \<open>RA\<close> only.
\<close>

definition auctionLog_query ::
  "engine \<Rightarrow> host \<Rightarrow> string \<Rightarrow> string \<Rightarrow> string \<Rightarrow> jsval \<Rightarrow> string option M" where
  "auctionLog_query E H k adtag logType adId =
     bindM (getAuction k) (\<lambda>a.
     case map_of (adSlots a) adtag of
       None \<Rightarrow> throwM TypeError
     | Some slot \<Rightarrow>
         bindM (getCommonLoggingData E H a slot) (\<lambda>commonParams0.
           let commonParams1 = pset commonParams0 ''lgtp'' (JStr logType);
               targeting' = deepAccess (JObj commonParams1) ''targ'';
               commonParams2 = pdelete (filter (\<lambda>(key, v). \<not> nullish v) commonParams1) ''targ''
           in bindM (if logType = LOG_TYPE_RA then
                       (case findBidObj (bidWrapper a) ''adId'' adId of
                          None \<Rightarrow> returnM None
                        | Some winningBidObj \<Rightarrow>
                            bindM (liftE (Bid_getLoggingData E winningBidObj)) (\<lambda>winLogData.
                              returnM (Some ([winLogData], pset commonParams2 ''lper'' (JNum 1)))))
                     else
                       bindM (getLoggingBids E k (JStr adtag)) (\<lambda>bids.
                       bindM (liftE (map_exn (Bid_getLoggingData E) bids)) (\<lambda>bidParams.
                         returnM (Some (bidParams, pdelete commonParams2 ''wts'')))))
                (\<lambda>r. case r of
                   None \<Rightarrow> returnM None
                 | Some (bidParams0, commonParams) \<Rightarrow>
                     let mnetPresent = (filter (\<lambda>b.
                           strict_eq (pget b ''pvnm'') (JStr MEDIANET_BIDDER_CODE)) bidParams0 \<noteq> []);
                         bidParams = (if \<not> mnetPresent then map restParams bidParams0
                                      else bidParams0)
                     in returnM (Some (formatQS E commonParams @ ''&''
                          @ concat (map (\<lambda>b. formatQS E b @ ''&'') bidParams)
                          @ formatQS E [(''targ'', targeting')])))))"

definition fireAuctionLog :: "engine \<Rightarrow> host \<Rightarrow> string \<Rightarrow> string \<Rightarrow> string \<Rightarrow> jsval \<Rightarrow> unit M" where
  "fireAuctionLog E H k adtag logType adId =
     bindM (auctionLog_query E H k adtag logType adId) (\<lambda>q.
       case q of None \<Rightarrow> returnM () | Some url \<Rightarrow> firePixel url)"

definition fireApPrLog :: "engine \<Rightarrow> host \<Rightarrow> string \<Rightarrow> string \<Rightarrow> string \<Rightarrow> unit M" where
  "fireApPrLog E H k adUnitName logType =
     bindM (getAuction k) (\<lambda>a.
     case map_of (adSlots a) adUnitName of
       None \<Rightarrow> throwM TypeError
     | Some adSlot \<Rightarrow>
         bindM (getShouldBeLogged E logType) (\<lambda>should.
           if truthy should \<and> \<not> truthy (pget (logged adSlot) logType) then
             bindM (fireAuctionLog E H k adUnitName logType JUndefined) (\<lambda>_.
               update_auction k (\<lambda>a. a\<lparr>adSlots :=
                 update_key adUnitName (\<lambda>slot. slot\<lparr>logged := pset (logged slot) logType (JBool True)\<rparr>)
                   (adSlots a)\<rparr>))
           else returnM ()))"

definition sendEvent :: "engine \<Rightarrow> host \<Rightarrow> string \<Rightarrow> string \<Rightarrow> string \<Rightarrow> jsval \<Rightarrow> unit M" where
  "sendEvent E H k adunit logType adId =
     (\<lambda>s. if \<not> isValidAuctionAdSlot s k adunit then (Inr (), s)
           else if logType = LOG_TYPE_RA then fireAuctionLog E H k adunit logType adId s
           else fireApPrLog E H k adunit logType s)"

subsection \<open>Event handlers: targeting and winning bids\<close>

text \<open>
  The body of the inner loop of \<open>setTargetingHandler\<close>, for one ad unit of \<open>params\<close> and
  one auction.
\<close>

definition setTargeting_auction ::
  "engine \<Rightarrow> host \<Rightarrow> jsval \<Rightarrow> string \<Rightarrow> string \<Rightarrow> unit M" where
  "setTargeting_auction E H params adunit k =
     bindM (getAuction k) (\<lambda>auctionObj.
       if map_of (adSlots auctionObj) adunit = None then returnM ()
       else
         bindM dateNow (\<lambda>now.
         bindM (update_auction k (\<lambda>a. a\<lparr>adSlots :=
                  update_key adunit (\<lambda>slot. slot\<lparr>targeting := jget params adunit\<rparr>) (adSlots a),
                  setTargetingTime := now\<rparr>)) (\<lambda>_.
         bindM (liftE (Object_keys (jget params adunit))) (\<lambda>keys.
           let targetingObj = foldl (\<lambda>result key.
                   if contains key (TARGETING_KEYS_AD_ID H)
                   then pset result key (jget (jget params adunit) key) else result) [] keys;
               winnerAdId = jget (jget params adunit) (TARGETING_KEYS_AD_ID H);
               bidAdIds = map snd targetingObj;
               targeted = (\<lambda>bid. \<exists>x \<in> set bidAdIds. strict_eq x (pget bid ''adId''));
               winningBid = (case filter (\<lambda>bid. targeted bid
                                    \<and> strict_eq (pget bid ''adId'') winnerAdId)
                                  (bidObjs (bidWrapper auctionObj)) of
                               [] \<Rightarrow> JUndefined
                             | ws \<Rightarrow> JObj (pset (last ws) ''iwb'' (JNum 1)))
           in bindM (update_auction k (\<lambda>a. a\<lparr>bidWrapper := (bidWrapper a)\<lparr>bidObjs :=
                       map (\<lambda>bid.
                         let bid1 = (if targeted bid then pset bid ''iwb'' (JNum 1) else bid)
                         in if strict_eq (pget bid1 ''bidder'') (JStr DUMMY_BIDDER)
                               \<and> strict_eq (pget bid1 ''adUnitCode'') (JStr adunit)
                            then pset (pset (pset bid1
                                   ''iwb'' (if bidAdIds = [] then JNum 0 else JNum 1))
                                   ''width'' (deepAccess winningBid ''width''))
                                   ''height'' (deepAccess winningBid ''height'')
                            else bid1)
                         (bidObjs (bidWrapper a))\<rparr>\<rparr>)) (\<lambda>_.
                sendEvent E H k adunit LOG_TYPE_APPR JUndefined)))))"

definition setTargetingHandler :: "engine \<Rightarrow> host \<Rightarrow> jsval \<Rightarrow> unit M" where
  "setTargetingHandler E H params =
     bindM (liftE (Object_keys params))
       (forEachM (\<lambda>adunit s.
          forEachM (setTargeting_auction E H params adunit) (map fst (auctions s)) s))"

definition bidWonHandler :: "engine \<Rightarrow> host \<Rightarrow> jsval \<Rightarrow> unit M" where
  "bidWonHandler E H bid =
     (if nullish bid then throwM TypeError
      else (\<lambda>s.
        let k = toString E (jget bid ''auctionId'');
            adId = jget bid ''adId'';
            details = JObj [(''adId'', adId),
                            (''auctionId'', jget bid ''auctionId''),
                            (''adUnitCode'', jget bid ''adUnitCode''),
                            (''bidder'', jget bid ''bidder''),
                            (''requestId'', jget bid ''requestId''),
                            (''originalRequestId'', jget bid ''originalRequestId'')]
        in case map_of (auctions s) k of
             None \<Rightarrow>
               bindM (new_ErrorLogger ERROR_WINNING_AUCTION_MISSING details) (ErrorLogger_send E) s
           | Some a \<Rightarrow>
               (case findBidObj (bidWrapper a) ''adId'' adId of
                  None \<Rightarrow>
                    bindM (new_ErrorLogger ERROR_WINNING_BID_ABSENT details) (ErrorLogger_send E) s
                | Some bidObj \<Rightarrow>
                    bindM dateNow (\<lambda>now.
                    bindM (update_auction k (\<lambda>a. a\<lparr>bidWonTime := now,
                             bidWrapper := (bidWrapper a)\<lparr>bidObjs :=
                               update_first (\<lambda>b. strict_eq (pget b ''adId'') adId)
                                 (\<lambda>b. pset (pset b ''latestAcid'' (jget bid ''latestTargetedAuctionId''))
                                         ''winner'' (JNum 1))
                                 (bidObjs (bidWrapper a))\<rparr>\<rparr>)) (\<lambda>_.
                      sendEvent E H k (toString E (jget bid ''adUnitCode'')) LOG_TYPE_RA
                        (pget bidObj ''adId''))) s)))"

subsection \<open>The adapter\<close>

definition getlogsQueue :: "state \<Rightarrow> string list" where
  "getlogsQueue s = logsQueue s"

definition getErrorQueue :: "state \<Rightarrow> string list" where
  "getErrorQueue s = errorQueue s"

definition clearlogsQueue :: "state \<Rightarrow> state" where
  "clearlogsQueue s = s\<lparr>logsQueue := [], errorQueue := [], auctions := []\<rparr>"

text \<open>\<open>medianetAnalytics.track({eventType, args})\<close>.\<close>

definition track :: "engine \<Rightarrow> host \<Rightarrow> jsval \<Rightarrow> jsval \<Rightarrow> unit M" where
  "track E H eventType args =
     bindM getConfig (\<lambda>c.
     bindM (if truthy (debug c) then logInfo eventType args else returnM ()) (\<lambda>_.
       if strict_eq eventType (EVENTS_AUCTION_INIT H) then auctionInitHandler E H args
       else if strict_eq eventType (EVENTS_BID_REQUESTED H) then bidRequestedHandler E args
       else if strict_eq eventType (EVENTS_BID_RESPONSE H) then bidResponseHandler E H args
       else if strict_eq eventType (EVENTS_BID_TIMEOUT H) then bidTimeoutHandler E args
       else if strict_eq eventType (EVENTS_NO_BID H) then noBidResponseHandler E H args
       else if strict_eq eventType (EVENTS_AUCTION_END H) then auctionEndHandler E H args
       else if strict_eq eventType (EVENTS_SET_TARGETING H) then setTargetingHandler E H args
       else if strict_eq eventType (EVENTS_BID_WON H) then bidWonHandler E H args
       else returnM ()))"

text \<open>Assignment \<open>v.k = x\<close> to a value that holds properties.\<close>

definition set_prop :: "jsval \<Rightarrow> string \<Rightarrow> jsval \<Rightarrow> jsval" where
  "set_prop v k x = (case v of JObj ps \<Rightarrow> JObj (pset ps k x) | _ \<Rightarrow> v)"

text \<open>A call of a method of \<open>Configure\<close> on the object that \<open>config\<close> holds.\<close>

definition on_config ::
  "(Configure \<Rightarrow> state \<Rightarrow> (jsval option \<times> Configure) \<times> state) \<Rightarrow> unit M" where
  "on_config m =
     (\<lambda>s. case config s of
        None \<Rightarrow> (Inl TypeError, s)
      | Some c \<Rightarrow>
          (case m c s of
             ((e, c'), s') \<Rightarrow>
               ((case e of None \<Rightarrow> Inr () | Some x \<Rightarrow> Inl x), s'\<lparr>config := Some c'\<rparr>)))"

text \<open>
  \<open>medianetAnalytics.enableAnalytics\<close>; \<open>originEnableAnalytics\<close> is the method of the base
  adapter that it replaces.
\<close>

definition enableAnalytics :: "engine \<Rightarrow> host \<Rightarrow> jsval \<Rightarrow> unit M" where
  "enableAnalytics E H configuration =
     (if \<not> truthy configuration \<or> \<not> truthy (jget configuration ''options'')
         \<or> \<not> truthy (jget (jget configuration ''options'') ''cid'')
      then logError ''Media.net Analytics adapter: cid is required.''
      else
        bindM (modify (\<lambda>s. s\<lparr>medianetGlobals :=
                 set_prop (js_or (medianetGlobals s) (JObj [])) ''analyticsEnabled'' (JBool True)\<rparr>))
          (\<lambda>_.
        bindM (liftE (new_PageDetail E H)) (\<lambda>pd.
        bindM (modify (\<lambda>s. s\<lparr>pageDetails := Some pd\<rparr>)) (\<lambda>_.
        bindM (modify (\<lambda>s. s\<lparr>config := Some
                 ((new_Configure (jget (jget configuration ''options'') ''cid''))
                    \<lparr>pubLper := js_or (jget (jget configuration ''options'') ''sampling'')
                                  (JStr [])\<rparr>)\<rparr>)) (\<lambda>_.
        bindM (on_config (init E H)) (\<lambda>_.
          modify (\<lambda>s. s\<lparr>originEnableAnalytics_calls := originEnableAnalytics_calls s
            @ [set_prop configuration ''options''
                 (set_prop (jget configuration ''options'') ''sampling'' (JNum 1))]\<rparr>)))))))"

text \<open>The two callbacks of the request that \<open>init\<close> hands to \<open>ajax\<close>.\<close>

definition ajax_success :: "engine \<Rightarrow> jsval \<Rightarrow> unit M" where
  "ajax_success E response = on_config (\<lambda>this. parseResponse E this response)"

definition ajax_error :: "engine \<Rightarrow> unit M" where
  "ajax_error E = on_config (errorFetch E)"

section \<open>Relations between states\<close>

text \<open>
  \<open>auctions_kept s s'\<close>: the state \<open>s'\<close> has the auctions of \<open>s\<close>, under the same keys and in
  the same order, each with the \<open>acid\<close>, \<open>status\<close> and \<open>auctionInitTime\<close> it has in \<open>s\<close>.
  \<open>keeps m\<close>: the statement \<open>m\<close> keeps the auctions in this sense, however it ends.
\<close>

definition auctions_kept :: "state \<Rightarrow> state \<Rightarrow> bool" where
  "auctions_kept s s' =
     list_all2 (\<lambda>(k, a) (k', a'). k' = k \<and> acid a' = acid a \<and> status a' = status a
                  \<and> auctionInitTime a' = auctionInitTime a)
       (auctions s) (auctions s')"

definition keeps :: "'a M \<Rightarrow> bool" where
  "keeps m = (\<forall>s. auctions_kept s (snd (m s)))"

text \<open>
  \<open>bidObjs_only s s'\<close>: the state \<open>s'\<close> is \<open>s\<close> but for the \<open>bidObjs\<close> of its auctions.
  \<open>quiet m\<close>: the statement \<open>m\<close> changes nothing else, however it ends.
\<close>

definition bidObjs_only :: "state \<Rightarrow> state \<Rightarrow> bool" where
  "bidObjs_only s s' =
     (s' = s\<lparr>auctions := auctions s'\<rparr>
      \<and> list_all2 (\<lambda>(k, a) (k', a'). k' = k
            \<and> a' = a\<lparr>bidWrapper := (bidWrapper a)\<lparr>bidObjs := bidObjs (bidWrapper a')\<rparr>\<rparr>)
          (auctions s) (auctions s'))"

definition quiet :: "'a M \<Rightarrow> bool" where
  "quiet m = (\<forall>s. bidObjs_only s (snd (m s)))"

text \<open>\<open>slot_logged s k adUnit logType\<close>: the flag \<open>logged[logType]\<close> of the slot is set.\<close>

definition slot_logged :: "state \<Rightarrow> string \<Rightarrow> string \<Rightarrow> string \<Rightarrow> bool" where
  "slot_logged s k adUnit logType =
     (case map_of (auctions s) k of
        None \<Rightarrow> False
      | Some a \<Rightarrow>
          (case map_of (adSlots a) adUnit of
             None \<Rightarrow> False
           | Some slot \<Rightarrow> truthy (pget (logged slot) logType)))"

text \<open>\<open>sampled s logType\<close>: the sampling decision for the log type is in \<open>config\<close>.\<close>

definition sampled :: "state \<Rightarrow> string \<Rightarrow> bool" where
  "sampled s logType =
     (case config s of None \<Rightarrow> False | Some c \<Rightarrow> has_own (shouldBeLogged c) logType)"

text \<open>\<open>after ms s\<close>: the state after the calls \<open>ms\<close>, one after the other, from \<open>s\<close>; a call
  that throws does not keep the next one from being made.\<close>

fun after :: "unit M list \<Rightarrow> state \<Rightarrow> state" where
  "after [] s = s"
| "after (m # ms) s = after ms (snd (m s))"

section \<open>Sample inputs\<close>

text \<open>A small engine and page on which the theorems below are exercised.\<close>

definition sample_engine :: engine where
  "sample_engine =
     \<lparr>toStr = (\<lambda>v. case v of JStr s \<Rightarrow> s | _ \<Rightarrow> ''?''),
      encodeURIComponent = (\<lambda>v. case v of JStr s \<Rightarrow> s | _ \<Rightarrow> ''?''),
      decodeURIComponent = (\<lambda>v. case v of JStr s \<Rightarrow> Inr s | _ \<Rightarrow> Inr ''?''),
      JSON_stringify = (\<lambda>v. case v of JUndefined \<Rightarrow> JUndefined | _ \<Rightarrow> JStr ''{}''),
      JSON_parse = (\<lambda>v.
        if v = JStr ''{}'' then Inr (JObj [])
        else if v = JStr ''null'' then Inr JNull
        else if v = JStr ''RICH''
          then Inr (JObj [(''richmedia'',
                 JObj [(''mediadata'', JObj [(''content'', JStr ''<b>ad</b>'')])])])
        else if v = JStr ''EMPTY''
          then Inr (JObj [(''richmedia'', JObj [(''mediadata'', JObj [(''content'', JStr [])])])])
        else Inl (JError ''SyntaxError'')),
      js_minus = (\<lambda>a b. case (a, b) of (JNum x, JNum y) \<Rightarrow> JNum (x - y) | _ \<Rightarrow> JNaN),
      js_divide = (\<lambda>a b. case (a, b) of (JNum x, JNum y) \<Rightarrow> JNum (x / y) | _ \<Rightarrow> JNaN),
      js_times = (\<lambda>a b. case (a, b) of (JNum x, JNum y) \<Rightarrow> JNum (x * y) | _ \<Rightarrow> JNaN),
      js_less = (\<lambda>a b. case (a, b) of (JNum x, JNum y) \<Rightarrow> x < y | _ \<Rightarrow> False),
      Math_floor = (\<lambda>v. case v of JNum x \<Rightarrow> JNum (of_int \<lfloor>x\<rfloor>) | _ \<Rightarrow> JNaN),
      Math_round = (\<lambda>v. case v of JNum x \<Rightarrow> JNum (of_int \<lfloor>x + 1 / 2\<rfloor>) | _ \<Rightarrow> JNaN),
      parseInt10 = (\<lambda>v. case v of JNum x \<Rightarrow> JNum (of_int \<lfloor>x\<rfloor>) | _ \<Rightarrow> JNaN),
      parseFloat = (\<lambda>v. case v of JNum x \<Rightarrow> JNum x | _ \<Rightarrow> JNaN),
      isNaN = (\<lambda>v. case v of JNum x \<Rightarrow> False | _ \<Rightarrow> True),
      toUpperCase = (\<lambda>s. s),
      toFixed4 = (\<lambda>v. if v = JNum 2 then JStr ''2.0000'' else JStr ''?'')\<rparr>"

definition sample_browser :: browser where
  "sample_browser =
     \<lparr>location_hostname = JStr ''example.com'',
      location_href = JStr ''https://example.com/'',
      navigator_language = JStr ''en-US'',
      navigator_userAgent = JStr ''ua'',
      screen_height = JNum 600,
      screen_width = JNum 800,
      getDNT = JBool False,
      getConfig_coppa = JUndefined\<rparr>"

definition sample_bidRequest :: jsval where
  "sample_bidRequest =
     JObj [(''bidId'', JStr ''b1''),
           (''params'', JObj [(''publisherId'', JStr ''p''), (''adspaceId'', JStr ''a'')]),
           (''sizes'', JArr [JArr [JNum 300, JNum 250]])]"

definition sample_getAdUnitSizes :: "jsval \<Rightarrow> jsval" where
  "sample_getAdUnitSizes br = jget br ''sizes''"

definition sample_bidderRequest :: jsval where
  "sample_bidderRequest =
     JObj [(''auctionId'', JStr ''auc''), (''refererInfo'', JObj [(''referer'', JStr ''r'')])]"





definition sample_host :: host where
  "sample_host =
     \<lparr>EVENTS_AUCTION_INIT = JStr ''auctionInit'',
      EVENTS_BID_REQUESTED = JStr ''bidRequested'',
      EVENTS_BID_RESPONSE = JStr ''bidResponse'',
      EVENTS_BID_TIMEOUT = JStr ''bidTimeout'',
      EVENTS_NO_BID = JStr ''noBid'',
      EVENTS_AUCTION_END = JStr ''auctionEnd'',
      EVENTS_SET_TARGETING = JStr ''setTargeting'',
      EVENTS_BID_WON = JStr ''bidWon'',
      AUCTION_IN_PROGRESS = JStr ''inProgress'',
      AUCTION_COMPLETED = JStr ''completed'',
      BID_STATUS_BID_REJECTED = JStr ''bidRejected'',
      TARGETING_KEYS_AD_ID = ''hb_adid'',
      INSTREAM = JStr ''instream'',
      OUTSTREAM = JStr ''outstream'',
      ADPOD = JStr ''adpod'',
      getPriceGranularity = (\<lambda>bid. JStr ''medium''),
      convertCurrency = (\<lambda>price fromCurrency toCurrency.
        if fromCurrency = JStr ''EUR'' then Inr (JNum 2) else Inl (JError ''Error'')),
      getRefererInfo = JObj [(''domain'', JStr ''example.com''),
                             (''topmostLocation'', JStr ''https://example.com/'')],
      querySelector = (\<lambda>selector. Inr JNull),
      absoluteUrl = (\<lambda>url. Inr url),
      document_referrer = JStr [],
      window_innerWidth = JNum 800,
      documentElement_clientWidth = JNum 800,
      body_clientWidth = JNum 800,
      window_innerHeight = JNum 600,
      documentElement_clientHeight = JNum 600,
      body_clientHeight = JNum 600,
      anchor = (\<lambda>href. JObj [(''hostname'', JStr ''example.com''), (''search'', JStr []),
                               (''host'', JStr ''example.com'')]),
      window_location_host = JStr ''example.com''\<rparr>"

definition sample_pageDetails :: PageDetail where
  "sample_pageDetails =
     \<lparr>domain = JStr ''example.com'', page = JStr ''https://example.com/'', is_top = JBool True,
      referrer = JStr [], canonical_url = JUndefined, og_url = JUndefined,
      twitter_url = JUndefined, topmostLocation = JStr ''https://example.com/'',
      screen = JStr ''800x600''\<rparr>"

text \<open>The state once analytics is enabled for the customer \<open>cid1\<close>, before any event.\<close>

definition sample_state :: state where
  "sample_state =
     \<lparr>auctions = [],
      config = Some (new_Configure (JStr ''cid1'')),
      pageDetails = Some sample_pageDetails,
      logsQueue = [], errorQueue = [], pixels = [], logError_calls = [], logInfo_calls = [],
      ajax_calls = [], medianetGlobals = JObj [(''analyticsEnabled'', JBool True)],
      originEnableAnalytics_calls = [],
      Date_now = (\<lambda>n. JNum (1000 + of_nat n)), Date_now_calls = 0,
      Math_random = (\<lambda>n. JNum 0), Math_random_calls = 0\<rparr>"



text \<open>The state of the module when it is loaded, and two arguments of \<open>enableAnalytics\<close>.\<close>

definition sample_initial :: state where
  "sample_initial =
     \<lparr>auctions = [], config = None, pageDetails = None,
      logsQueue = [], errorQueue = [], pixels = [], logError_calls = [], logInfo_calls = [],
      ajax_calls = [], medianetGlobals = JUndefined, originEnableAnalytics_calls = [],
      Date_now = (\<lambda>n. JNum (1000 + of_nat n)), Date_now_calls = 0,
      Math_random = (\<lambda>n. JNum 0), Math_random_calls = 0\<rparr>"

definition sample_configuration :: jsval where
  "sample_configuration =
     JObj [(''provider'', JStr ''medianetAnalytics''),
           (''options'', JObj [(''cid'', JStr ''cid1''), (''sampling'', JNum (1 / 2))])]"

definition sample_configuration_no_cid :: jsval where
  "sample_configuration_no_cid =
     JObj [(''provider'', JStr ''medianetAnalytics''), (''options'', JObj [])]"






section \<open>The smaato adapter: requests\<close>

lemma map_exn_Inr:
  "(\<And>x. x \<in> set xs \<Longrightarrow> f x = Inr (g x)) \<Longrightarrow> map_exn f xs = Inr (map g xs)"
  by (induction xs) auto

lemma parseSizes_ok:
  assumes "\<forall>s \<in> set ss. \<not> nullish s"
  shows "parseSizes (JArr ss)
           = Inr (map (\<lambda>s. JObj [(''w'', jget s ''0''), (''h'', jget s ''1'')]) ss)"
  using assms
  by (simp add: parseSizes_def as_array_def bindE_def map_exn_Inr)

lemma valid_not_nullish:
  assumes "isBidRequestValid br = Inr True"
  shows "\<not> nullish br" and "\<not> nullish (jget br ''params'')"
  using assms
  by (auto simp: isBidRequestValid_def bindE_def jget_strict_def typeof_object_def nullish_def
      split: if_splits sum.splits jsval.splits)

lemma imp_entry_ok:
  assumes v: "\<not> nullish br"
    and s: "getAdUnitSizes br = JArr ss" "ss \<noteq> []" "\<forall>s \<in> set ss. \<not> nullish s"
  shows "imp_entry getAdUnitSizes br =
     Inr (JObj [(''id'', jget br ''bidId''),
           (''banner'', JObj [(''w'', jget (hd ss) ''0''), (''h'', jget (hd ss) ''1''),
              (''format'', JArr (map (\<lambda>s. JObj [(''w'', jget s ''0''), (''h'', jget s ''1'')]) ss))]),
           (''tagid'', deepAccess br ''params.adspaceId'')])"
proof -
  obtain s0 rest where ss: "ss = s0 # rest" using s(2) by (cases ss) auto
  show ?thesis
    using v s(1) s(3) parseSizes_ok[of ss]
    by (simp add: imp_entry_def bindE_def jget_strict_def nth_or_undefined_def ss
        nullish_def jget_def pget_def)
qed

lemma split_regs:
  "split_on CHR ''.'' ''regs.ext.us_privacy'' = [''regs'', ''ext'', ''us_privacy'']"
  by (simp add: split_on_def)

lemma openRtbBidRequest_imp:
  assumes "openRtbBidRequest g W reqs b = Inr request"
  shows "\<exists>imp. map_exn (imp_entry g) reqs = Inr imp \<and> jget request ''imp'' = JArr imp"
  using assms
  by (auto simp: openRtbBidRequest_def bindE_def Let_def jget_def pget_def deepSetValue_def
      split_regs pset_def has_own_def split: sum.splits if_splits)

lemma openRtbBidRequest_ok:
  assumes "map_exn (imp_entry g) reqs = Inr imp"
    and "\<not> nullish b" "\<not> nullish (jget b ''refererInfo'')"
    and "\<not> truthy (navigator_language W) \<or> is_string (navigator_language W)"
  shows "\<exists>request. openRtbBidRequest g W reqs b = Inr request"
  using assms
  by (auto simp: openRtbBidRequest_def bindE_def Let_def jget_strict_def device_language_def
      is_string_def split: jsval.splits)

text \<open>
  C1. For a non-empty list of valid bid requests, each with at least one ad-unit size, and a
  bidder request (an object that carries \<open>refererInfo\<close>), \<open>buildRequests\<close> returns a POST
  request whose \<open>data\<close> is the JSON serialization of a request object whose \<open>imp\<close> array has one
  entry per bid request, in order: entry \<open>i\<close> has the \<open>bidId\<close> of request \<open>i\<close> as its \<open>id\<close>, and
  its \<open>banner.format\<close> lists the sizes of request \<open>i\<close> as objects \<open>{w, h}\<close>.
\<close>

theorem buildRequests_one_imp_per_request:
  assumes nonempty: "validBidRequests \<noteq> []"
    and valid: "\<forall>br \<in> set validBidRequests. isBidRequestValid br = Inr True"
    and sizes: "\<forall>br \<in> set validBidRequests.
        \<exists>ss. getAdUnitSizes br = JArr ss \<and> ss \<noteq> [] \<and> (\<forall>s \<in> set ss. \<not> nullish s)"
    and bidder: "\<not> nullish bidderRequest" "\<not> nullish (jget bidderRequest ''refererInfo'')"
    and lang: "\<not> truthy (navigator_language W) \<or> is_string (navigator_language W)"
  shows "\<exists>request imp.
      buildRequests E getAdUnitSizes W validBidRequests bidderRequest =
        Inr (JObj
          [(''method'', JStr ''POST''),
           (''url'', js_or (jget (jget (hd validBidRequests) ''params'') ''endpoint'')
                       (JStr SMAATO_ENDPOINT)),
           (''data'', JSON_stringify E request),
           (''options'', JObj
              [(''customHeaders'', JObj
                  [(''X-SMT-Client'', JStr CLIENT),
                   (''X-SMT-SessionId'', jget bidderRequest ''auctionId'')])])])
      \<and> jget request ''imp'' = JArr imp
      \<and> length imp = length validBidRequests
      \<and> (\<forall>i < length validBidRequests.
            jget (imp ! i) ''id'' = jget (validBidRequests ! i) ''bidId''
            \<and> (\<forall>ss. getAdUnitSizes (validBidRequests ! i) = JArr ss \<longrightarrow>
                  deepAccess (imp ! i) ''banner.format''
                    = JArr (map (\<lambda>s. JObj [(''w'', jget s ''0''), (''h'', jget s ''1'')]) ss)))"
proof -
  define sz where "sz br = (case getAdUnitSizes br of JArr ss \<Rightarrow> ss | _ \<Rightarrow> [])" for br
  define imp_object where "imp_object br =
     JObj [(''id'', jget br ''bidId''),
           (''banner'', JObj [(''w'', jget (hd (sz br)) ''0''), (''h'', jget (hd (sz br)) ''1''),
              (''format'', JArr (map (\<lambda>s. JObj [(''w'', jget s ''0''), (''h'', jget s ''1'')]) (sz br)))]),
           (''tagid'', deepAccess br ''params.adspaceId'')]" for br
  define imp where "imp = map imp_object validBidRequests"
  have each: "imp_entry getAdUnitSizes br = Inr (imp_object br)"
    if "br \<in> set validBidRequests" for br
  proof -
    from sizes that
    have "\<exists>ss. getAdUnitSizes br = JArr ss \<and> ss \<noteq> [] \<and> (\<forall>s \<in> set ss. \<not> nullish s)"
      by (rule bspec)
    then obtain ss where
      ss: "getAdUnitSizes br = JArr ss" "ss \<noteq> []" "\<forall>s \<in> set ss. \<not> nullish s"
      by (elim exE conjE)
    have "sz br = ss" by (simp add: sz_def ss(1))
    moreover have "isBidRequestValid br = Inr True" using valid that by (rule bspec)
    then have "\<not> nullish br" by (rule valid_not_nullish(1))
    ultimately show ?thesis
      using imp_entry_ok[of br getAdUnitSizes ss] ss by (simp add: imp_object_def)
  qed
  have imps: "map_exn (imp_entry getAdUnitSizes) validBidRequests = Inr imp"
    unfolding imp_def by (rule map_exn_Inr) (rule each)
  obtain request where
    req: "openRtbBidRequest getAdUnitSizes W validBidRequests bidderRequest = Inr request"
    using openRtbBidRequest_ok[OF imps bidder lang] by blast
  have rimp: "jget request ''imp'' = JArr imp"
    using openRtbBidRequest_imp[OF req] imps by simp
  obtain br0 rest where v0: "validBidRequests = br0 # rest"
    using nonempty by (cases validBidRequests) auto
  have p0: "\<not> nullish br0" "\<not> nullish (jget br0 ''params'')"
    using valid valid_not_nullish[of br0] by (simp_all add: v0)
  have result: "buildRequests E getAdUnitSizes W validBidRequests bidderRequest =
        Inr (JObj
          [(''method'', JStr ''POST''),
           (''url'', js_or (jget (jget (hd validBidRequests) ''params'') ''endpoint'')
                       (JStr SMAATO_ENDPOINT)),
           (''data'', JSON_stringify E request),
           (''options'', JObj
              [(''customHeaders'', JObj
                  [(''X-SMT-Client'', JStr CLIENT),
                   (''X-SMT-SessionId'', jget bidderRequest ''auctionId'')])])])"
    using p0 bidder(1) req
    by (simp add: buildRequests_def buildOpenRtbBidRequestPayload_def bindE_def jget_strict_def
        nth_or_undefined_def v0)
  have elems: "jget (imp ! i) ''id'' = jget (validBidRequests ! i) ''bidId''
            \<and> (\<forall>ss. getAdUnitSizes (validBidRequests ! i) = JArr ss \<longrightarrow>
                  deepAccess (imp ! i) ''banner.format''
                    = JArr (map (\<lambda>s. JObj [(''w'', jget s ''0''), (''h'', jget s ''1'')]) ss))"
    if "i < length validBidRequests" for i
    using that
    by (auto simp: imp_def imp_object_def jget_def pget_def sz_def deepAccess_def split_on_def)
  show ?thesis
    using result rimp elems by (intro exI[of _ request] exI[of _ imp]) (simp add: imp_def)
qed

theorem buildRequests_one_imp_per_request_witness:
  "\<exists>request imp.
      buildRequests sample_engine sample_getAdUnitSizes sample_browser
          [sample_bidRequest] sample_bidderRequest =
        Inr (JObj
          [(''method'', JStr ''POST''),
           (''url'', js_or (jget (jget (hd [sample_bidRequest]) ''params'') ''endpoint'')
                       (JStr SMAATO_ENDPOINT)),
           (''data'', JSON_stringify sample_engine request),
           (''options'', JObj
              [(''customHeaders'', JObj
                  [(''X-SMT-Client'', JStr CLIENT),
                   (''X-SMT-SessionId'', jget sample_bidderRequest ''auctionId'')])])])
      \<and> jget request ''imp'' = JArr imp
      \<and> length imp = length [sample_bidRequest]
      \<and> (\<forall>i < length [sample_bidRequest].
            jget (imp ! i) ''id'' = jget ([sample_bidRequest] ! i) ''bidId''
            \<and> (\<forall>ss. sample_getAdUnitSizes ([sample_bidRequest] ! i) = JArr ss \<longrightarrow>
                  deepAccess (imp ! i) ''banner.format''
                    = JArr (map (\<lambda>s. JObj [(''w'', jget s ''0''), (''h'', jget s ''1'')]) ss)))"
proof -
  have h1: "[sample_bidRequest] \<noteq> []" by simp
  have h2: "\<forall>br \<in> set [sample_bidRequest]. isBidRequestValid br = Inr True"
    by (simp add: sample_bidRequest_def isBidRequestValid_def bindE_def jget_strict_def jget_def
        pget_def nullish_def typeof_object_def is_string_def)
  have h3: "\<forall>br \<in> set [sample_bidRequest].
        \<exists>ss. sample_getAdUnitSizes br = JArr ss \<and> ss \<noteq> [] \<and> (\<forall>s \<in> set ss. \<not> nullish s)"
    by (simp add: sample_bidRequest_def sample_getAdUnitSizes_def jget_def pget_def nullish_def)
  have h4: "\<not> nullish sample_bidderRequest"
    by (simp add: sample_bidderRequest_def nullish_def)
  have h5: "\<not> nullish (jget sample_bidderRequest ''refererInfo'')"
    by (simp add: sample_bidderRequest_def nullish_def jget_def pget_def)
  have h6: "\<not> truthy (navigator_language sample_browser)
              \<or> is_string (navigator_language sample_browser)"
    by (simp add: sample_browser_def is_string_def)
  show ?thesis
    by (rule buildRequests_one_imp_per_request [OF h1 h2 h3 h4 h5 h6])
qed

section \<open>The smaato adapter: responses\<close>







section \<open>The analytics adapter: events outside the dispatch\<close>

lemma strict_eq_eq: "strict_eq a b \<Longrightarrow> a = b"
  by (cases a) (auto simp: strict_eq_def)

text \<open>
  C3. \<open>track\<close> dispatches on the eight event types only: for an event whose type is none of
  \<open>AUCTION_INIT\<close>, \<open>BID_REQUESTED\<close>, \<open>BID_RESPONSE\<close>, \<open>BID_TIMEOUT\<close>, \<open>NO_BID\<close>,
  \<open>AUCTION_END\<close>, \<open>SET_TARGETING\<close> and \<open>BID_WON\<close>, the state is as before but for the
  message that \<open>logInfo\<close> writes in debug mode: \<open>auctions\<close>, \<open>logsQueue\<close> and \<open>errorQueue\<close>
  are unchanged and no pixel is triggered.
\<close>

theorem track_other_event_unchanged:
  assumes "eventType \<notin> {EVENTS_AUCTION_INIT H, EVENTS_BID_REQUESTED H, EVENTS_BID_RESPONSE H,
             EVENTS_BID_TIMEOUT H, EVENTS_NO_BID H, EVENTS_AUCTION_END H,
             EVENTS_SET_TARGETING H, EVENTS_BID_WON H}"
  shows "snd (track E H eventType args s)
           = s\<lparr>logInfo_calls := logInfo_calls (snd (track E H eventType args s))\<rparr>
       \<and> auctions (snd (track E H eventType args s)) = auctions s
       \<and> logsQueue (snd (track E H eventType args s)) = logsQueue s
       \<and> errorQueue (snd (track E H eventType args s)) = errorQueue s
       \<and> pixels (snd (track E H eventType args s)) = pixels s"
proof -
  have ne: "\<not> strict_eq eventType (EVENTS_AUCTION_INIT H)"
    "\<not> strict_eq eventType (EVENTS_BID_REQUESTED H)"
    "\<not> strict_eq eventType (EVENTS_BID_RESPONSE H)"
    "\<not> strict_eq eventType (EVENTS_BID_TIMEOUT H)"
    "\<not> strict_eq eventType (EVENTS_NO_BID H)"
    "\<not> strict_eq eventType (EVENTS_AUCTION_END H)"
    "\<not> strict_eq eventType (EVENTS_SET_TARGETING H)"
    "\<not> strict_eq eventType (EVENTS_BID_WON H)"
    using assms strict_eq_eq by auto
  show ?thesis
    by (simp add: track_def ne bindM_def getConfig_def returnM_def logInfo_def modify_def
        split: option.splits)
qed

theorem track_other_event_unchanged_witness:
  "snd (track sample_engine sample_host (JStr ''bidAccepted'') JUndefined sample_state)
           = sample_state\<lparr>logInfo_calls := logInfo_calls
               (snd (track sample_engine sample_host (JStr ''bidAccepted'') JUndefined
                  sample_state))\<rparr>
       \<and> auctions (snd (track sample_engine sample_host (JStr ''bidAccepted'') JUndefined
            sample_state)) = auctions sample_state
       \<and> logsQueue (snd (track sample_engine sample_host (JStr ''bidAccepted'') JUndefined
            sample_state)) = logsQueue sample_state
       \<and> errorQueue (snd (track sample_engine sample_host (JStr ''bidAccepted'') JUndefined
            sample_state)) = errorQueue sample_state
       \<and> pixels (snd (track sample_engine sample_host (JStr ''bidAccepted'') JUndefined
            sample_state)) = pixels sample_state"
proof -
  have h: "JStr ''bidAccepted'' \<notin> {EVENTS_AUCTION_INIT sample_host,
             EVENTS_BID_REQUESTED sample_host, EVENTS_BID_RESPONSE sample_host,
             EVENTS_BID_TIMEOUT sample_host, EVENTS_NO_BID sample_host,
             EVENTS_AUCTION_END sample_host, EVENTS_SET_TARGETING sample_host,
             EVENTS_BID_WON sample_host}"
    by (simp add: sample_host_def)
  show ?thesis by (rule track_other_event_unchanged [OF h])
qed

section \<open>The analytics adapter: auctionInit\<close>

lemma kept_refl: "auctions_kept s s"
  by (simp add: auctions_kept_def list_all2_refl split_beta)








lemma keeps_throwM: "keeps (throwM e)"
  by (simp add: keeps_def throwM_def kept_refl)














section \<open>The analytics adapter: currency conversion\<close>

text \<open>
  C7. When the call of \<open>convertCurrency\<close> throws, \<open>exchangeCurrency\<close> logs an error and
  returns the price it was given; when the call returns a number, it returns that number
  formatted by \<open>toFixed(4)\<close> and logs nothing. (When the call returns a value that is
  not a number, \<open>toFixed\<close> is not a function of it, and the TypeError is caught in the same
  way.) It never throws.
\<close>

theorem exchangeCurrency_catches:
  "(\<forall>e. convertCurrency H price fromCurrency toCurrency = Inl e \<longrightarrow>
       exchangeCurrency E H price fromCurrency toCurrency s
         = (Inr price,
            s\<lparr>logError_calls := logError_calls s
               @ [''Media.net Analytics Adapter: Could not convert '' @ toString E fromCurrency
                    @ '' to '' @ toString E toCurrency @ '' for price '' @ toString E price]\<rparr>))
   \<and> (\<forall>converted. convertCurrency H price fromCurrency toCurrency = Inr converted
          \<and> is_number converted \<longrightarrow>
       exchangeCurrency E H price fromCurrency toCurrency s = (Inr (toFixed4 E converted), s))
   \<and> (\<forall>converted. convertCurrency H price fromCurrency toCurrency = Inr converted
          \<and> \<not> is_number converted \<longrightarrow>
       exchangeCurrency E H price fromCurrency toCurrency s
         = (Inr price,
            s\<lparr>logError_calls := logError_calls s
               @ [''Media.net Analytics Adapter: Could not convert '' @ toString E fromCurrency
                    @ '' to '' @ toString E toCurrency @ '' for price '' @ toString E price]\<rparr>))
   \<and> (\<exists>r. fst (exchangeCurrency E H price fromCurrency toCurrency s) = Inr r)"
  by (auto simp: exchangeCurrency_def Let_def bindM_def logError_def modify_def returnM_def
      split: sum.splits)

theorem exchangeCurrency_catches_witness:
  "exchangeCurrency sample_engine sample_host (JNum 3) (JStr ''GBP'') (JStr ''USD'') sample_state
     = (Inr (JNum 3),
        sample_state\<lparr>logError_calls := logError_calls sample_state
           @ [''Media.net Analytics Adapter: Could not convert ''
                @ toString sample_engine (JStr ''GBP'')
                @ '' to '' @ toString sample_engine (JStr ''USD'')
                @ '' for price '' @ toString sample_engine (JNum 3)]\<rparr>)
   \<and> exchangeCurrency sample_engine sample_host (JNum 3) (JStr ''EUR'') (JStr ''USD'') sample_state
     = (Inr (toFixed4 sample_engine (JNum 2)), sample_state)"
proof -
  have h1: "convertCurrency sample_host (JNum 3) (JStr ''GBP'') (JStr ''USD'')
              = Inl (JError ''Error'')"
    by (simp add: sample_host_def)
  have h2: "convertCurrency sample_host (JNum 3) (JStr ''EUR'') (JStr ''USD'') = Inr (JNum 2)
              \<and> is_number (JNum 2)"
    by (simp add: sample_host_def is_number_def)
  show ?thesis
    using exchangeCurrency_catches
        [of sample_host "JNum 3" "JStr ''GBP''" "JStr ''USD''" sample_engine sample_state,
         THEN conjunct1, rule_format, OF h1]
      exchangeCurrency_catches
        [of sample_host "JNum 3" "JStr ''EUR''" "JStr ''USD''" sample_engine sample_state,
         THEN conjunct2, THEN conjunct1, rule_format, OF h2]
    by (rule conjI)
qed

section \<open>The analytics adapter: the configuration response\<close>

lemma setDataFromResponse_Inl:
  "setDataFromResponse E this r = Inl e \<Longrightarrow> nullish r"
  by (auto simp: setDataFromResponse_def bindE_def jget_strict_def split: if_splits)

lemma truthy_not_nullish: "truthy v \<Longrightarrow> \<not> nullish v"
  by (auto simp: nullish_def)

lemma overrideDomainLevelData_Inr:
  "\<exists>t. overrideDomainLevelData E pd this r = Inr t"
proof (cases "overrideDomainLevelData E pd this r")
  case (Inl e)
  then have "truthy (deepAccess r (''domain.'' @ toString E (domain pd)))"
    and "setDataFromResponse E this (deepAccess r (''domain.'' @ toString E (domain pd))) = Inl e"
    by (auto simp: overrideDomainLevelData_def Let_def split: if_splits)
  then show ?thesis
    using setDataFromResponse_Inl truthy_not_nullish by blast
next
  case (Inr t)
  then show ?thesis by blast
qed

lemma parseResponse_try_thrown:
  assumes "parseResponse_try E (Some pd) this response = (Some e, t)"
  shows "t = this"
  using assms overrideDomainLevelData_Inr
  apply (simp add: parseResponse_try_def Let_def split: sum.splits)
  apply (metis sum.distinct(1))
  done

lemma parseResponse_try_parse_fail:
  "JSON_parse E response = Inl e \<Longrightarrow> parseResponse_try E pdo this response = (Some e, this)"
  by (simp add: parseResponse_try_def)

text \<open>
  C6. When the response of the configuration request does not parse as JSON, or its
  processing throws, \<open>_parseResponse\<close> (called once \<open>pageDetails\<close> and \<open>config\<close> are set, as
  they are when a \<open>Configure\<close> exists) does not throw: it sets \<open>ajaxState\<close> to
  \<open>CONFIG_ERROR\<close>, appends exactly one URL to \<open>errorQueue\<close>, the error pixel of the event
  \<open>ERROR_CONFIG_JSON_PARSE\<close> with the exception as \<open>rd\<close>, triggers that pixel, and leaves
  everything else, \<open>loggingPercent\<close> and \<open>urlToConsume\<close> among it, as it was.
\<close>

theorem parseResponse_catches:
  assumes pd: "pageDetails s = Some pd" and c: "config s = Some c"
    and thrown: "JSON_parse E response = Inl e
                   \<or> fst (parseResponse_try E (pageDetails s) this response) = Some e"
  shows "parseResponse E this response s =
           ((None, this\<lparr>ajaxState := CONFIG_ERROR\<rparr>),
            s\<lparr>errorQueue := errorQueue s
                 @ [EVENT_PIXEL_URL @ ''?'' @ formatQS E
                      [(''event'', JStr ERROR_CONFIG_JSON_PARSE),
                       (''logid'', JStr ''kfk''),
                       (''evtid'', JStr ''projectevents''),
                       (''project'', JStr ''prebidanalytics''),
                       (''dn'', js_or (domain pd) (JStr [])),
                       (''requrl'', js_or (topmostLocation pd) (JStr [])),
                       (''pbversion'', JStr PREBID_VERSION),
                       (''cid'', js_or (cid c) (JStr [])),
                       (''rd'', e)]],
              pixels := pixels s
                 @ [EVENT_PIXEL_URL @ ''?'' @ formatQS E
                      [(''event'', JStr ERROR_CONFIG_JSON_PARSE),
                       (''logid'', JStr ''kfk''),
                       (''evtid'', JStr ''projectevents''),
                       (''project'', JStr ''prebidanalytics''),
                       (''dn'', js_or (domain pd) (JStr [])),
                       (''requrl'', js_or (topmostLocation pd) (JStr [])),
                       (''pbversion'', JStr PREBID_VERSION),
                       (''cid'', js_or (cid c) (JStr [])),
                       (''rd'', e)]]\<rparr>)
       \<and> ajaxState (snd (fst (parseResponse E this response s))) = CONFIG_ERROR
       \<and> loggingPercent (snd (fst (parseResponse E this response s))) = loggingPercent this
       \<and> urlToConsume (snd (fst (parseResponse E this response s))) = urlToConsume this"
proof -
  have "fst (parseResponse_try E (Some pd) this response) = Some e"
    using thrown pd parseResponse_try_parse_fail[of E response e "Some pd" this] by auto
  then obtain t where t: "parseResponse_try E (Some pd) this response = (Some e, t)"
    by (cases "parseResponse_try E (Some pd) this response") auto
  then have "t = this" by (rule parseResponse_try_thrown)
  with t have tr: "parseResponse_try E (Some pd) this response = (Some e, this)"
    by simp
  show ?thesis
    by (simp add: parseResponse_def tr new_ErrorLogger_def ErrorLogger_send_def bindM_def
        getPageDetails_def getConfig_def pd c returnM_def modify_def triggerPixel_def Let_def)
qed

theorem parseResponse_catches_witness:
  "parseResponse sample_engine (new_Configure (JStr ''cid1'')) (JStr ''<html>'') sample_state =
           ((None, (new_Configure (JStr ''cid1''))\<lparr>ajaxState := CONFIG_ERROR\<rparr>),
            sample_state\<lparr>errorQueue := errorQueue sample_state
                 @ [EVENT_PIXEL_URL @ ''?'' @ formatQS sample_engine
                      [(''event'', JStr ERROR_CONFIG_JSON_PARSE),
                       (''logid'', JStr ''kfk''),
                       (''evtid'', JStr ''projectevents''),
                       (''project'', JStr ''prebidanalytics''),
                       (''dn'', js_or (domain sample_pageDetails) (JStr [])),
                       (''requrl'', js_or (topmostLocation sample_pageDetails) (JStr [])),
                       (''pbversion'', JStr PREBID_VERSION),
                       (''cid'', js_or (cid (new_Configure (JStr ''cid1''))) (JStr [])),
                       (''rd'', JError ''SyntaxError'')]],
              pixels := pixels sample_state
                 @ [EVENT_PIXEL_URL @ ''?'' @ formatQS sample_engine
                      [(''event'', JStr ERROR_CONFIG_JSON_PARSE),
                       (''logid'', JStr ''kfk''),
                       (''evtid'', JStr ''projectevents''),
                       (''project'', JStr ''prebidanalytics''),
                       (''dn'', js_or (domain sample_pageDetails) (JStr [])),
                       (''requrl'', js_or (topmostLocation sample_pageDetails) (JStr [])),
                       (''pbversion'', JStr PREBID_VERSION),
                       (''cid'', js_or (cid (new_Configure (JStr ''cid1''))) (JStr [])),
                       (''rd'', JError ''SyntaxError'')]]\<rparr>)
       \<and> ajaxState (snd (fst (parseResponse sample_engine (new_Configure (JStr ''cid1''))
             (JStr ''<html>'') sample_state))) = CONFIG_ERROR
       \<and> loggingPercent (snd (fst (parseResponse sample_engine (new_Configure (JStr ''cid1''))
             (JStr ''<html>'') sample_state))) = loggingPercent (new_Configure (JStr ''cid1''))
       \<and> urlToConsume (snd (fst (parseResponse sample_engine (new_Configure (JStr ''cid1''))
             (JStr ''<html>'') sample_state))) = urlToConsume (new_Configure (JStr ''cid1''))"
proof -
  have h1: "pageDetails sample_state = Some sample_pageDetails"
    by (simp add: sample_state_def)
  have h2: "config sample_state = Some (new_Configure (JStr ''cid1''))"
    by (simp add: sample_state_def)
  have h3: "JSON_parse sample_engine (JStr ''<html>'') = Inl (JError ''SyntaxError'')
              \<or> fst (parseResponse_try sample_engine (pageDetails sample_state)
                     (new_Configure (JStr ''cid1'')) (JStr ''<html>''))
                  = Some (JError ''SyntaxError'')"
    by (simp add: sample_engine_def)
  show ?thesis by (rule parseResponse_catches [OF h1 h2 h3])
qed

section \<open>The analytics adapter: enabling\<close>

lemma map_of_update_value:
  "map_of (map (\<lambda>(k', v'). if k' = k then (k', v) else (k', v')) ps) k'
     = (if k' = k \<and> map_of ps k \<noteq> None then Some v else map_of ps k')"
  by (induction ps) auto

lemma pget_pset: "pget (pset ps k v) k' = (if k' = k then v else pget ps k')"
  by (auto simp: pget_def pset_def has_own_def map_of_update_value split: option.splits)

lemma truthy_jget_JObj:
  assumes "truthy (jget v k)" "k \<noteq> ''length''" "array_index k = None"
  shows "\<exists>ps. v = JObj ps"
  using assms by (cases v) (auto simp: jget_def)

lemma array_index_options: "array_index ''options'' = None"
  by (simp add: array_index_def digit_of_def)

lemma array_index_cid: "array_index ''cid'' = None"
  by (simp add: array_index_def digit_of_def)

text \<open>
  C8. When \<open>configuration\<close>, \<open>configuration.options\<close> or \<open>configuration.options.cid\<close> is
  missing (falsy), \<open>enableAnalytics\<close> logs an error and returns, and that is all it does:
  \<open>pageDetails\<close> and \<open>config\<close> are not created, \<open>medianetGlobals\<close> (the flag
  \<open>analyticsEnabled\<close>) is not touched, and the base adapter's \<open>enableAnalytics\<close> is not
  called. When \<open>cid\<close> is present, either the method throws and the base adapter is not
  called, or it returns and has called the base adapter once, with a configuration whose
  \<open>options.sampling\<close> is 1 and whose \<open>options.cid\<close> is the one given.
\<close>

theorem enableAnalytics_requires_cid:
  "(\<not> truthy configuration \<or> \<not> truthy (jget configuration ''options'')
      \<or> \<not> truthy (jget (jget configuration ''options'') ''cid'') \<longrightarrow>
      enableAnalytics E H configuration s
        = (Inr (), s\<lparr>logError_calls := logError_calls s
                        @ [''Media.net Analytics adapter: cid is required.'']\<rparr>)
      \<and> pageDetails (snd (enableAnalytics E H configuration s)) = pageDetails s
      \<and> config (snd (enableAnalytics E H configuration s)) = config s
      \<and> medianetGlobals (snd (enableAnalytics E H configuration s)) = medianetGlobals s
      \<and> originEnableAnalytics_calls (snd (enableAnalytics E H configuration s))
           = originEnableAnalytics_calls s)
   \<and> (truthy configuration \<and> truthy (jget configuration ''options'')
      \<and> truthy (jget (jget configuration ''options'') ''cid'') \<longrightarrow>
      ((\<exists>e. fst (enableAnalytics E H configuration s) = Inl e)
         \<and> originEnableAnalytics_calls (snd (enableAnalytics E H configuration s))
              = originEnableAnalytics_calls s)
      \<or> (fst (enableAnalytics E H configuration s) = Inr ()
         \<and> (\<exists>delegated.
               originEnableAnalytics_calls (snd (enableAnalytics E H configuration s))
                 = originEnableAnalytics_calls s @ [delegated]
               \<and> jget (jget delegated ''options'') ''sampling'' = JNum 1
               \<and> jget (jget delegated ''options'') ''cid''
                    = jget (jget configuration ''options'') ''cid'')))"
proof (intro conjI impI)
  assume "\<not> truthy configuration \<or> \<not> truthy (jget configuration ''options'')
      \<or> \<not> truthy (jget (jget configuration ''options'') ''cid'')"
  then have e: "enableAnalytics E H configuration s
        = (Inr (), s\<lparr>logError_calls := logError_calls s
                        @ [''Media.net Analytics adapter: cid is required.'']\<rparr>)"
    by (auto simp: enableAnalytics_def logError_def modify_def)
  show "enableAnalytics E H configuration s
        = (Inr (), s\<lparr>logError_calls := logError_calls s
                        @ [''Media.net Analytics adapter: cid is required.'']\<rparr>)"
    by (rule e)
  show "pageDetails (snd (enableAnalytics E H configuration s)) = pageDetails s"
    "config (snd (enableAnalytics E H configuration s)) = config s"
    "medianetGlobals (snd (enableAnalytics E H configuration s)) = medianetGlobals s"
    "originEnableAnalytics_calls (snd (enableAnalytics E H configuration s))
           = originEnableAnalytics_calls s"
    by (simp_all add: e)
next
  assume a: "truthy configuration \<and> truthy (jget configuration ''options'')
      \<and> truthy (jget (jget configuration ''options'') ''cid'')"
  obtain cps where cps: "configuration = JObj cps"
    using a truthy_jget_JObj[of configuration "''options''"] array_index_options by auto
  obtain ops where ops: "jget configuration ''options'' = JObj ops"
    using a truthy_jget_JObj[of "jget configuration ''options''" "''cid''"] array_index_cid
    by auto
  define delegated where "delegated = set_prop configuration ''options''
                 (set_prop (jget configuration ''options'') ''sampling'' (JNum 1))"
  have po: "pget cps ''options'' = JObj ops"
    using ops by (simp add: cps jget_def)
  have dl: "delegated = JObj (pset cps ''options'' (JObj (pset ops ''sampling'' (JNum 1))))"
    by (simp add: delegated_def cps set_prop_def jget_def po)
  have d1: "jget (jget delegated ''options'') ''sampling'' = JNum 1"
    by (simp add: dl jget_def pget_pset)
  have d2: "jget (jget delegated ''options'') ''cid'' = jget (jget configuration ''options'') ''cid''"
    by (simp add: dl cps jget_def pget_pset po)
  show "((\<exists>e. fst (enableAnalytics E H configuration s) = Inl e)
         \<and> originEnableAnalytics_calls (snd (enableAnalytics E H configuration s))
              = originEnableAnalytics_calls s)
      \<or> (fst (enableAnalytics E H configuration s) = Inr ()
         \<and> (\<exists>delegated.
               originEnableAnalytics_calls (snd (enableAnalytics E H configuration s))
                 = originEnableAnalytics_calls s @ [delegated]
               \<and> jget (jget delegated ''options'') ''sampling'' = JNum 1
               \<and> jget (jget delegated ''options'') ''cid''
                    = jget (jget configuration ''options'') ''cid''))"
    using a d1 d2
    by (auto simp: enableAnalytics_def bindM_def modify_def liftE_def on_config_def init_def
        Let_def delegated_def
        split: sum.splits option.splits prod.splits if_splits)
qed


lemma sample_enable_ok:
  "fst (enableAnalytics sample_engine sample_host sample_configuration sample_initial) = Inr ()"
  by code_simp

theorem enableAnalytics_requires_cid_witness:
  "enableAnalytics sample_engine sample_host sample_configuration_no_cid sample_initial
        = (Inr (), sample_initial\<lparr>logError_calls := logError_calls sample_initial
                        @ [''Media.net Analytics adapter: cid is required.'']\<rparr>)
   \<and> pageDetails (snd (enableAnalytics sample_engine sample_host sample_configuration_no_cid
         sample_initial)) = pageDetails sample_initial
   \<and> config (snd (enableAnalytics sample_engine sample_host sample_configuration_no_cid
         sample_initial)) = config sample_initial
   \<and> medianetGlobals (snd (enableAnalytics sample_engine sample_host
         sample_configuration_no_cid sample_initial)) = medianetGlobals sample_initial
   \<and> originEnableAnalytics_calls (snd (enableAnalytics sample_engine sample_host
         sample_configuration_no_cid sample_initial))
           = originEnableAnalytics_calls sample_initial
   \<and> fst (enableAnalytics sample_engine sample_host sample_configuration sample_initial) = Inr ()
   \<and> (\<exists>delegated.
         originEnableAnalytics_calls (snd (enableAnalytics sample_engine sample_host
             sample_configuration sample_initial))
           = originEnableAnalytics_calls sample_initial @ [delegated]
         \<and> jget (jget delegated ''options'') ''sampling'' = JNum 1
         \<and> jget (jget delegated ''options'') ''cid''
              = jget (jget sample_configuration ''options'') ''cid'')"
proof -
  have h1: "\<not> truthy sample_configuration_no_cid
      \<or> \<not> truthy (jget sample_configuration_no_cid ''options'')
      \<or> \<not> truthy (jget (jget sample_configuration_no_cid ''options'') ''cid'')"
    by (simp add: sample_configuration_no_cid_def jget_def pget_def)
  have h2: "truthy sample_configuration \<and> truthy (jget sample_configuration ''options'')
      \<and> truthy (jget (jget sample_configuration ''options'') ''cid'')"
    by (simp add: sample_configuration_def jget_def pget_def)
  note t1 = enableAnalytics_requires_cid
    [of sample_configuration_no_cid sample_engine sample_host sample_initial,
     THEN conjunct1, rule_format, OF h1]
  note t2 = enableAnalytics_requires_cid
    [of sample_configuration sample_engine sample_host sample_initial,
     THEN conjunct2, rule_format, OF h2]
  have ok: "fst (enableAnalytics sample_engine sample_host sample_configuration sample_initial)
              = Inr ()"
    by (rule sample_enable_ok)
  from t2 ok have t3: "\<exists>delegated.
         originEnableAnalytics_calls (snd (enableAnalytics sample_engine sample_host
             sample_configuration sample_initial))
           = originEnableAnalytics_calls sample_initial @ [delegated]
         \<and> jget (jget delegated ''options'') ''sampling'' = JNum 1
         \<and> jget (jget delegated ''options'') ''cid''
              = jget (jget sample_configuration ''options'') ''cid''"
    by auto
  show ?thesis using t1 ok t3 by blast
qed

section \<open>The analytics adapter: no bid and timeout\<close>






end
